theory Spec2Isabelle
  imports Main "HOL-Library.Word"
begin

unbundle bit_operations_syntax

section \<open>libsigchain: the signal-chain interposition layer (sigchainlib/sigchain.cc)\<close>

text \<open>
  The embedding follows the Android build of \<^verbatim>\<open>sigchain.cc\<close>: \<^verbatim>\<open>__BIONIC__\<close>,
  \<^verbatim>\<open>__LP64__\<close> and \<^verbatim>\<open>__aarch64__\<close> are defined. In that build
  \<^verbatim>\<open>sigset_t\<close> and \<^verbatim>\<open>sigset64_t\<close> are both one 64-bit word (signal \<open>n\<close> is
  bit \<open>n - 1\<close>), \<^verbatim>\<open>struct sigaction\<close> and \<^verbatim>\<open>struct sigaction64\<close> are two types with the
  same fields, and the chain record keeps \<^verbatim>\<open>orig_action_\<close>.

  Code that is not part of the library is the environment: the kernel and the real libc
  (\<open>real_sigaction\<close>, \<open>real_sigprocmask\<close>, the \<^verbatim>\<open>sigset\<close> helpers), and the handlers the
  library calls (record \<open>env\<close>). A handler is an arbitrary transformer of the state the
  calling thread sees; it may also never return.
\<close>

subsection \<open>Platform constants (\<^verbatim>\<open><signal.h>\<close>, \<^verbatim>\<open><errno.h>\<close>, \<^verbatim>\<open>sigchain.h\<close>)\<close>

type_synonym fnptr = "64 word"
type_synonym sigset = "64 word"
type_synonym flags = "32 word"

definition nullptr :: fnptr where "nullptr = 0"
definition SIG_DFL :: fnptr where "SIG_DFL = 0"
definition SIG_IGN :: fnptr where "SIG_IGN = 1"
definition SIG_ERR :: fnptr where "SIG_ERR = - 1"

text \<open>\<^verbatim>\<open>_NSIG\<close> is 65 in bionic: signals are numbered 1 to 64.\<close>
definition NSIG :: int where "NSIG = 65"

definition SIGILL :: int where "SIGILL = 4"
definition SIGTRAP :: int where "SIGTRAP = 5"
definition SIGBUS :: int where "SIGBUS = 7"
definition SIGFPE :: int where "SIGFPE = 8"
definition SIGKILL :: int where "SIGKILL = 9"
definition SIGSEGV :: int where "SIGSEGV = 11"
definition SIGSTOP :: int where "SIGSTOP = 19"

definition SIG_BLOCK :: int where "SIG_BLOCK = 0"
definition SIG_UNBLOCK :: int where "SIG_UNBLOCK = 1"
definition SIG_SETMASK :: int where "SIG_SETMASK = 2"

definition EINVAL :: int where "EINVAL = 22"

definition SA_NOCLDSTOP :: flags where "SA_NOCLDSTOP = 0x00000001"
definition SA_NOCLDWAIT :: flags where "SA_NOCLDWAIT = 0x00000002"
definition SA_SIGINFO :: flags where "SA_SIGINFO = 0x00000004"
definition SA_RESTORER :: flags where "SA_RESTORER = 0x04000000"
definition SA_ONSTACK :: flags where "SA_ONSTACK = 0x08000000"
definition SA_RESTART :: flags where "SA_RESTART = 0x10000000"
definition SA_NODEFER :: flags where "SA_NODEFER = 0x40000000"
definition SA_RESETHAND :: flags where "SA_RESETHAND = 0x80000000"

text \<open>The two flags \<^verbatim>\<open>sigchain.cc\<close> defines itself (lines 49 and 50).\<close>
definition SA_UNSUPPORTED :: flags where "SA_UNSUPPORTED = 0x00000400"
definition SA_EXPOSE_TAGBITS :: flags where "SA_EXPOSE_TAGBITS = 0x00000800"

definition SI_USER :: int where "SI_USER = 0"
definition SI_KERNEL :: int where "SI_KERNEL = 0x80"
definition TRAP_HWBKPT :: int where "TRAP_HWBKPT = 4"
definition SEGV_MTEAERR :: int where "SEGV_MTEAERR = 8"
definition SEGV_MTESERR :: int where "SEGV_MTESERR = 9"

definition SIGCHAIN_ALLOW_NORETURN :: "64 word" where "SIGCHAIN_ALLOW_NORETURN = 0x1"

subsection \<open>Data\<close>

text \<open>
  \<^verbatim>\<open>struct sigaction64\<close> (and \<^verbatim>\<open>struct sigaction\<close>, which has the same fields on LP64).
  \<open>sa_handler\<close> and \<^verbatim>\<open>sa_sigaction\<close> are one union member: a single pointer.
\<close>
record struct_sigaction =
  sa_flags :: flags
  sa_handler :: fnptr
  sa_mask :: sigset
  sa_restorer :: fnptr

record SigchainAction =
  sc_sigaction :: fnptr
  sc_mask :: sigset
  sc_flags :: "64 word"

text \<open>
  \<^verbatim>\<open>class SignalChain\<close>. \<open>special_handlers\<close> is the array \<^verbatim>\<open>special_handlers_[2]\<close>: a list
  that every operation of the library keeps at length 2.
\<close>
record SignalChain =
  claimed :: bool
  kernel_supported_flags :: flags
  action :: struct_sigaction
  orig_action :: struct_sigaction
  special_handlers :: "SigchainAction list"

record siginfo =
  si_signo :: int
  si_code :: int
  si_addr :: "64 word"

record ucontext =
  uc_sigmask64 :: sigset
  uc_mcontext :: "64 word list"

text \<open>
  The state as the calling thread sees it. Process-wide: the array \<^verbatim>\<open>chains[_NSIG]\<close>,
  \<^verbatim>\<open>is_signal_hook_debuggable\<close>, the kernel's table of dispositions, the flag bits the
  running kernel keeps in \<^verbatim>\<open>sa_flags\<close> (all ones on a kernel that does not clear unknown
  flags), what \<^verbatim>\<open>mallopt(M_BIONIC_SIGCHAINLIB_SHOULD_INTERCEPT_MTE_SIGSEGV, 0)\<close> answers,
  and the diagnostics written so far. Of the calling thread: the values stored under the
  handling-signal keys, its signal mask and its \<^verbatim>\<open>errno\<close>.
\<close>
record world =
  chains :: "int \<Rightarrow> SignalChain"
  is_signal_hook_debuggable :: bool
  kernel_actions :: "int \<Rightarrow> struct_sigaction"
  kernel_flag_mask :: flags
  mallopt_intercept_mte_sigsegv :: int
  logcat :: "string list"
  handling_tls :: "nat \<Rightarrow> 64 word"
  thread_sigmask :: sigset
  errno :: int

text \<open>
  The code the dispatcher calls: the special handlers and the chained user handlers, by
  address, and \<^verbatim>\<open>android_handle_signal\<close>, a weak symbol that may be absent. \<open>None\<close> as
  a result means that the call never returns. A handler gets \<^verbatim>\<open>siginfo\<close> and
  \<^verbatim>\<open>ucontext\<close> by pointer and may change them.
\<close>
record env =
  special_fn :: "fnptr \<Rightarrow> int \<Rightarrow> siginfo \<Rightarrow> ucontext \<Rightarrow> world
                   \<Rightarrow> (bool \<times> siginfo \<times> ucontext \<times> world) option"
  android_handle_signal :: "(int \<Rightarrow> siginfo \<Rightarrow> ucontext \<Rightarrow> world
                   \<Rightarrow> (bool \<times> siginfo \<times> ucontext \<times> world) option) option"
  sigaction_fn :: "fnptr \<Rightarrow> int \<Rightarrow> siginfo \<Rightarrow> ucontext \<Rightarrow> world
                   \<Rightarrow> (siginfo \<times> ucontext \<times> world) option"
  handler_fn :: "fnptr \<Rightarrow> int \<Rightarrow> world \<Rightarrow> world option"

text \<open>
  What a function of the library does to its environment, in order: the calls of the real
  libc functions with their arguments, and the calls of handlers. A call of a special
  handler also records what the thread's handling bit for the signal and the thread's
  signal mask are when the handler starts.
\<close>
datatype event =
    LinkedSigaction int "struct_sigaction option"
  | LinkedSigprocmask int "sigset option"
  | CallSpecial SigchainAction int bool sigset
  | CallAndroidHandleSignal int
  | CallSigaction fnptr int
  | CallHandler fnptr int

datatype outcome = Returned siginfo ucontext world | NoReturn

datatype phase = Done outcome | Next siginfo ucontext world

text \<open>\<^verbatim>\<open>LogError\<close> and \<^verbatim>\<open>LogStack\<close> (log.h and the unwinder): one line per call.\<close>
definition LogError :: "string \<Rightarrow> world \<Rightarrow> world" where
  "LogError msg w = w\<lparr>logcat := logcat w @ [msg]\<rparr>"

definition LogStack :: "world \<Rightarrow> world" where
  "LogStack w = w\<lparr>logcat := logcat w @ [''<callstack>'']\<rparr>"

subsection \<open>The environment: libc's signal sets and the real system calls\<close>

text \<open>
  bionic's \<^verbatim>\<open>sigismember64\<close>, \<^verbatim>\<open>sigaddset64\<close>, \<^verbatim>\<open>sigdelset64\<close>, \<^verbatim>\<open>sigemptyset64\<close> and
  \<^verbatim>\<open>sigfillset64\<close>: bit \<open>signum - 1\<close> of the word, and a signal number whose bit is
  outside the word is refused (\<open>- 1\<close>; the set is left as it is). Each of the three
  functions below gives the value part of a call; a call that refuses also stores
  \<^verbatim>\<open>EINVAL\<close> in \<^verbatim>\<open>errno\<close>, which is \<open>sigset_errno\<close> on the state.
\<close>
text \<open>\<^verbatim>\<open>sizeof(sigset64_t) * CHAR_BIT\<close>: the set is 8 bytes.\<close>
definition sigset_bits :: nat where
  "sigset_bits = 64"

definition sigismember :: "sigset \<Rightarrow> int \<Rightarrow> int" where
  "sigismember sigset signum =
     (if signum - 1 < 0 \<or> int sigset_bits \<le> signum - 1 then - 1
      else if bit sigset (nat (signum - 1)) then 1 else 0)"

definition sigemptyset :: sigset where
  "sigemptyset = 0"

definition sigfillset :: sigset where
  "sigfillset = - 1"

definition sigaddset :: "sigset \<Rightarrow> int \<Rightarrow> sigset" where
  "sigaddset sigset signum =
     (if signum - 1 < 0 \<or> int sigset_bits \<le> signum - 1 then sigset
      else set_bit (nat (signum - 1)) sigset)"

definition sigdelset :: "sigset \<Rightarrow> int \<Rightarrow> sigset" where
  "sigdelset sigset signum =
     (if signum - 1 < 0 \<or> int sigset_bits \<le> signum - 1 then sigset
      else unset_bit (nat (signum - 1)) sigset)"

definition sigset_errno :: "int \<Rightarrow> world \<Rightarrow> world" where
  "sigset_errno signum w =
     (if signum - 1 < 0 \<or> int sigset_bits \<le> signum - 1 then w\<lparr>errno := EINVAL\<rparr> else w)"

text \<open>The signals that no mask can block and whose disposition cannot change.\<close>
definition unblockable :: sigset where
  "unblockable = sigaddset (sigaddset sigemptyset SIGKILL) SIGSTOP"

text \<open>
  The real \<^verbatim>\<open>sigaction\<close> of libc, that is the system call: the result code, what it
  writes to \<^verbatim>\<open>*old\<close> when \<^verbatim>\<open>old\<close> is not null (nothing when it fails), and the state.
  It refuses a signal number outside 1 to 64 and a new disposition for \<^verbatim>\<open>SIGKILL\<close> or
  \<^verbatim>\<open>SIGSTOP\<close>; it stores the new disposition with the flag bits the kernel keeps.
\<close>
definition real_sigaction ::
    "int \<Rightarrow> struct_sigaction option \<Rightarrow> world \<Rightarrow> int \<times> struct_sigaction option \<times> world" where
  "real_sigaction signo new w =
     (if signo \<le> 0 \<or> NSIG \<le> signo \<or> (new \<noteq> None \<and> (signo = SIGKILL \<or> signo = SIGSTOP))
      then (- 1, None, w\<lparr>errno := EINVAL\<rparr>)
      else (0, Some (kernel_actions w signo),
            case new of
              None \<Rightarrow> w
            | Some a \<Rightarrow>
                w\<lparr>kernel_actions := (kernel_actions w)
                     (signo := a\<lparr>sa_flags := sa_flags a AND kernel_flag_mask w,
                                 sa_mask := sa_mask a AND NOT unblockable\<rparr>)\<rparr>))"

text \<open>
  The real \<^verbatim>\<open>sigprocmask\<close>: result code, the previous mask for \<^verbatim>\<open>*old\<close>, and the state
  with the calling thread's new mask.
\<close>
definition real_sigprocmask ::
    "int \<Rightarrow> sigset option \<Rightarrow> world \<Rightarrow> int \<times> sigset option \<times> world" where
  "real_sigprocmask how new w =
     (case new of
        None \<Rightarrow> (0, Some (thread_sigmask w), w)
      | Some s \<Rightarrow>
          if how = SIG_BLOCK then
            (0, Some (thread_sigmask w),
             w\<lparr>thread_sigmask := (thread_sigmask w OR s) AND NOT unblockable\<rparr>)
          else if how = SIG_UNBLOCK then
            (0, Some (thread_sigmask w),
             w\<lparr>thread_sigmask := (thread_sigmask w AND NOT s) AND NOT unblockable\<rparr>)
          else if how = SIG_SETMASK then
            (0, Some (thread_sigmask w), w\<lparr>thread_sigmask := s AND NOT unblockable\<rparr>)
          else (- 1, None, w\<lparr>errno := EINVAL\<rparr>))"

text \<open>
  \<^verbatim>\<open>InitializeSignalChain\<close> resolves the four pointers to the real functions once, and
  aborts the process when it cannot. The model starts after it has succeeded.
\<close>
definition linked_sigaction ::
    "int \<Rightarrow> struct_sigaction option \<Rightarrow> world \<Rightarrow> int \<times> struct_sigaction option \<times> world" where
  "linked_sigaction = real_sigaction"

definition linked_sigaction64 ::
    "int \<Rightarrow> struct_sigaction option \<Rightarrow> world \<Rightarrow> int \<times> struct_sigaction option \<times> world" where
  "linked_sigaction64 = real_sigaction"

definition linked_sigprocmask ::
    "int \<Rightarrow> sigset option \<Rightarrow> world \<Rightarrow> int \<times> sigset option \<times> world" where
  "linked_sigprocmask = real_sigprocmask"

definition linked_sigprocmask64 ::
    "int \<Rightarrow> sigset option \<Rightarrow> world \<Rightarrow> int \<times> sigset option \<times> world" where
  "linked_sigprocmask64 = real_sigprocmask"

text \<open>
  What a call through a pointer \<^verbatim>\<open>old\<close> leaves at \<^verbatim>\<open>*old\<close>: \<open>None\<close> stands for a null
  pointer, \<open>Some v\<close> for a pointer to an object that holds \<open>v\<close>.
\<close>
definition store_old :: "'a option \<Rightarrow> 'a option \<Rightarrow> 'a option" where
  "store_old old written =
     (case old of None \<Rightarrow> None | Some v \<Rightarrow> (case written of None \<Rightarrow> Some v | Some u \<Rightarrow> Some u))"

subsection \<open>sigorset (lines 90 to 99)\<close>

definition sigorset :: "sigset \<Rightarrow> sigset \<Rightarrow> sigset" where
  "sigorset left right =
     fold (\<lambda>i dest. if sigismember left (int i) = 1 \<or> sigismember right (int i) = 1
                     then sigaddset dest (int i) else dest)
          [0..<sigset_bits] sigemptyset"

text \<open>
  What the loop does to \<^verbatim>\<open>errno\<close>: the calls of one turn all get the same number \<open>i\<close>,
  so they all refuse it or none does.
\<close>
definition sigorset_errno :: "world \<Rightarrow> world" where
  "sigorset_errno w = fold (\<lambda>i w. sigset_errno (int i) w) [0..<sigset_bits] w"

subsection \<open>The handling-signal flag store (lines 179 to 266)\<close>

definition IsPowerOfTwo :: "64 word \<Rightarrow> bool" where
  "IsPowerOfTwo x = (x AND (x - 1) = 0)"

definition RoundUp :: "64 word \<Rightarrow> 64 word \<Rightarrow> 64 word" where
  "RoundUp x n = (x + n - 1) AND (- n)"

definition kSignalSetLength :: "64 word" where
  "kSignalSetLength = word_of_int (NSIG - 1)"

definition kNumSignalsPerKey :: "64 word" where
  "kNumSignalsPerKey = 64"

definition kHandlingSignalKeyCount :: "64 word" where
  "kHandlingSignalKeyCount = RoundUp kSignalSetLength kNumSignalsPerKey div kNumSignalsPerKey"

text \<open>
  The keys are created on first use (a failure aborts the process); a key is named here
  by its index in the array \<^verbatim>\<open>key[kHandlingSignalKeyCount]\<close>.
\<close>
definition GetHandlingSignalKey :: "nat \<Rightarrow> nat" where
  "GetHandlingSignalKey idx = idx"

definition pthread_getspecific :: "nat \<Rightarrow> world \<Rightarrow> 64 word" where
  "pthread_getspecific key w = handling_tls w key"

definition pthread_setspecific :: "nat \<Rightarrow> 64 word \<Rightarrow> world \<Rightarrow> world" where
  "pthread_setspecific key v w = w\<lparr>handling_tls := (handling_tls w)(key := v)\<rparr>"

text \<open>\<^verbatim>\<open>GetHandlingSignal()\<close>: is any bit of the calling thread set?\<close>
definition GetHandlingSignal_any :: "world \<Rightarrow> bool" where
  "GetHandlingSignal_any w =
     list_ex (\<lambda>i. pthread_getspecific (GetHandlingSignalKey i) w \<noteq> 0)
             [0..<unat kHandlingSignalKeyCount]"

text \<open>
  \<^verbatim>\<open>GetHandlingSignal(int signo)\<close> and \<^verbatim>\<open>SetHandlingSignal\<close>. \<^verbatim>\<open>size_t bit_idx = signo - 1\<close>
  converts to 64 bits without sign, so it wraps for \<open>signo \<le> 0\<close>; the library passes
  the numbers from 1 to 64, for which \<open>key_idx\<close> is 0. The array \<^verbatim>\<open>key\<close> has
  \<^verbatim>\<open>kHandlingSignalKeyCount\<close> entries; the store here answers for every index.
\<close>
definition GetHandlingSignal :: "int \<Rightarrow> world \<Rightarrow> bool" where
  "GetHandlingSignal signo w =
     (let bit_idx = (word_of_int (signo - 1) :: 64 word);
          key_idx = bit_idx div kNumSignalsPerKey;
          bit_mask = push_bit (unat (bit_idx mod kNumSignalsPerKey)) (1 :: 64 word);
          result = pthread_getspecific (GetHandlingSignalKey (unat key_idx)) w
      in result AND bit_mask \<noteq> 0)"

definition SetHandlingSignal :: "int \<Rightarrow> bool \<Rightarrow> world \<Rightarrow> bool \<times> world" where
  "SetHandlingSignal signo val w =
     (let bit_idx = (word_of_int (signo - 1) :: 64 word);
          key_idx = bit_idx div kNumSignalsPerKey;
          bit_mask = push_bit (unat (bit_idx mod kNumSignalsPerKey)) (1 :: 64 word);
          key = GetHandlingSignalKey (unat key_idx);
          bitmap = pthread_getspecific key w;
          ret = (bitmap AND bit_mask \<noteq> 0);
          bitmap' = (if val then bitmap OR bit_mask else bitmap AND NOT bit_mask)
      in (ret, pthread_setspecific key bitmap' w))"

text \<open>\<^verbatim>\<open>class ScopedHandlingSignal\<close>, fields \<^verbatim>\<open>signo_\<close> and \<^verbatim>\<open>original_value_\<close>.\<close>
record ScopedHandlingSignal =
  scoped_signo :: int
  original_value :: bool

definition ScopedHandlingSignal_ctor :: "int \<Rightarrow> bool \<Rightarrow> world \<Rightarrow> ScopedHandlingSignal \<times> world" where
  "ScopedHandlingSignal_ctor signo do_set w =
     (if do_set
      then (let (ret, w') = SetHandlingSignal signo True w
            in (\<lparr>scoped_signo = signo, original_value = ret\<rparr>, w'))
      else (\<lparr>scoped_signo = signo, original_value = GetHandlingSignal signo w\<rparr>, w))"

definition ScopedHandlingSignal_dtor :: "ScopedHandlingSignal \<Rightarrow> world \<Rightarrow> world" where
  "ScopedHandlingSignal_dtor this w = snd (SetHandlingSignal (scoped_signo this) (original_value this) w)"

subsection \<open>class SignalChain (lines 268 to 418)\<close>

text \<open>
  A method of \<^verbatim>\<open>SignalChain\<close> that only touches its own fields is a function on the
  record. \<^verbatim>\<open>Register\<close> and \<^verbatim>\<open>Claim\<close> also call the kernel; the library only ever calls
  them as \<^verbatim>\<open>chains[signo].Register(signo)\<close>, so they are functions of \<open>signo\<close> on the
  whole state.
\<close>
definition update_chain :: "int \<Rightarrow> (SignalChain \<Rightarrow> SignalChain) \<Rightarrow> world \<Rightarrow> world" where
  "update_chain signo f w = w\<lparr>chains := (chains w)(signo := f (chains w signo))\<rparr>"

definition IsClaimed :: "SignalChain \<Rightarrow> bool" where
  "IsClaimed this = claimed this"

text \<open>The action \<^verbatim>\<open>Register\<close> installs: \<^verbatim>\<open>SignalChain::Handler\<close> is named by its address.\<close>
definition Handler_addr :: fnptr where
  "Handler_addr = 0x5167C4A1"

definition handler_action :: struct_sigaction where
  "handler_action =
     \<lparr>sa_flags = SA_RESTART OR SA_SIGINFO OR SA_ONSTACK OR SA_UNSUPPORTED OR SA_EXPOSE_TAGBITS,
      sa_handler = Handler_addr,
      sa_mask = sigfillset,
      sa_restorer = nullptr\<rparr>"

definition Register :: "int \<Rightarrow> world \<Rightarrow> world" where
  "Register signo w =
     (let (rc1, old1, w1) = linked_sigaction64 signo (Some handler_action) w;
          w2 = (case old1 of
                  None \<Rightarrow> w1
                | Some a \<Rightarrow> update_chain signo (\<lambda>this. this\<lparr>action := a\<rparr>) w1);
          w3 = update_chain signo (\<lambda>this. this\<lparr>orig_action := action this\<rparr>) w2;
          (rc2, old2, w4) = linked_sigaction64 signo None w3;
          read_back = (case old2 of None \<Rightarrow> handler_action | Some a \<Rightarrow> a);
          base = SA_NOCLDSTOP OR SA_NOCLDWAIT OR SA_SIGINFO OR SA_ONSTACK OR SA_RESTART OR
                 SA_NODEFER OR SA_RESETHAND;
          base' = base OR SA_RESTORER;
          supported =
            (if sa_flags read_back AND SA_UNSUPPORTED = 0 \<and>
                sa_flags read_back AND SA_EXPOSE_TAGBITS \<noteq> 0
             then base' OR SA_EXPOSE_TAGBITS else base')
      in update_chain signo (\<lambda>this. this\<lparr>kernel_supported_flags := supported\<rparr>) w4)"

definition Claim :: "int \<Rightarrow> world \<Rightarrow> world" where
  "Claim signo w =
     (if \<not> claimed (chains w signo)
      then update_chain signo (\<lambda>this. this\<lparr>claimed := True\<rparr>) (Register signo w)
      else w)"

text \<open>
  \<^verbatim>\<open>GetAction<SigactionType>\<close> and \<^verbatim>\<open>SetAction<SigactionType>\<close>: the instance for
  \<^verbatim>\<open>struct sigaction64\<close>, the type of \<^verbatim>\<open>action_\<close>, copies the structure; the instance
  for \<^verbatim>\<open>struct sigaction\<close> copies field by field, and \<^verbatim>\<open>memcpy\<close> copies the whole mask
  since both masks have 8 bytes.
\<close>
definition GetAction64 :: "SignalChain \<Rightarrow> struct_sigaction" where
  "GetAction64 this = action this"

definition GetAction :: "SignalChain \<Rightarrow> struct_sigaction" where
  "GetAction this =
     \<lparr>sa_flags = sa_flags (action this),
      sa_handler = sa_handler (action this),
      sa_mask = sa_mask (action this),
      sa_restorer = sa_restorer (action this)\<rparr>"

definition SetAction64 :: "struct_sigaction \<Rightarrow> SignalChain \<Rightarrow> SignalChain" where
  "SetAction64 new_action this =
     (let this1 = this\<lparr>action := new_action\<rparr>
      in this1\<lparr>action := (action this1)
                \<lparr>sa_flags := sa_flags (action this1) AND kernel_supported_flags this1\<rparr>\<rparr>)"

definition SetAction :: "struct_sigaction \<Rightarrow> SignalChain \<Rightarrow> SignalChain" where
  "SetAction new_action this =
     (let this1 = this\<lparr>action := (action this)
                         \<lparr>sa_flags := sa_flags new_action,
                          sa_handler := sa_handler new_action,
                          sa_restorer := sa_restorer new_action,
                          sa_mask := sa_mask new_action\<rparr>\<rparr>
      in this1\<lparr>action := (action this1)
                \<lparr>sa_flags := sa_flags (action this1) AND kernel_supported_flags this1\<rparr>\<rparr>)"

text \<open>\<^verbatim>\<open>AddSpecialHandler\<close>: the first free slot takes the handler; no free slot is fatal.\<close>
fun AddSpecialHandler_slots :: "SigchainAction \<Rightarrow> SigchainAction list \<Rightarrow> SigchainAction list option" where
  "AddSpecialHandler_slots sa [] = None"
| "AddSpecialHandler_slots sa (slot # slots) =
     (if sc_sigaction slot = nullptr then Some (sa # slots)
      else map_option ((#) slot) (AddSpecialHandler_slots sa slots))"

definition AddSpecialHandler :: "SigchainAction \<Rightarrow> SignalChain \<Rightarrow> string + SignalChain" where
  "AddSpecialHandler sa this =
     (case AddSpecialHandler_slots sa (special_handlers this) of
        Some slots \<Rightarrow> Inr (this\<lparr>special_handlers := slots\<rparr>)
      | None \<Rightarrow> Inl ''too many special signal handlers'')"

subsection \<open>SignalChain::Handler, the central dispatcher (lines 432 to 562)\<close>

text \<open>
  One turn of the loop over \<^verbatim>\<open>chains[signo].special_handlers_\<close>, for a slot that is not
  empty (lines 441 to 454). A handler that returns true ends the dispatcher: the
  destructor of \<^verbatim>\<open>restorer\<close> runs, the signal mask is not put back. \<^verbatim>\<open>previous_mask\<close> is
  what the real \<^verbatim>\<open>sigprocmask\<close> wrote; it always writes it for \<^verbatim>\<open>SIG_SETMASK\<close>.
\<close>
definition Handler_call_special ::
    "env \<Rightarrow> int \<Rightarrow> SigchainAction \<Rightarrow> siginfo \<Rightarrow> ucontext \<Rightarrow> world \<Rightarrow> event list \<times> phase" where
  "Handler_call_special e signo handler info uc w =
     (let handler_noreturn = (sc_flags handler AND SIGCHAIN_ALLOW_NORETURN \<noteq> 0);
          (rc, old, w1) = linked_sigprocmask SIG_SETMASK (Some (sc_mask handler)) w;
          previous_mask = (case old of None \<Rightarrow> 0 | Some m \<Rightarrow> m);
          (restorer, w2) = ScopedHandlingSignal_ctor signo (\<not> handler_noreturn) w1;
          evs = [LinkedSigprocmask SIG_SETMASK (Some (sc_mask handler)),
                 CallSpecial handler signo (GetHandlingSignal signo w2) (thread_sigmask w2)]
      in case special_fn e (sc_sigaction handler) signo info uc w2 of
           None \<Rightarrow> (evs, Done NoReturn)
         | Some (True, info', uc', w3) \<Rightarrow>
             (evs, Done (Returned info' uc' (ScopedHandlingSignal_dtor restorer w3)))
         | Some (False, info', uc', w3) \<Rightarrow>
             let (rc', old', w4) = linked_sigprocmask SIG_SETMASK (Some previous_mask) w3;
                 w5 = ScopedHandlingSignal_dtor restorer w4
             in (evs @ [LinkedSigprocmask SIG_SETMASK (Some previous_mask)], Next info' uc' w5))"

text \<open>
  The loop (lines 436 to 455) over the slots 0 and 1. A slot is read from the array when
  its turn comes, after the handlers before it have run; an empty slot ends the loop.
\<close>
fun Handler_special_handlers ::
    "env \<Rightarrow> int \<Rightarrow> nat list \<Rightarrow> siginfo \<Rightarrow> ucontext \<Rightarrow> world \<Rightarrow> event list \<times> phase" where
  "Handler_special_handlers e signo [] info uc w = ([], Next info uc w)"
| "Handler_special_handlers e signo (i # slots) info uc w =
     (let handler = special_handlers (chains w signo) ! i in
      if sc_sigaction handler = nullptr then ([], Next info uc w)
      else
        case Handler_call_special e signo handler info uc w of
          (evs, Done out) \<Rightarrow> (evs, Done out)
        | (evs, Next info' uc' w') \<Rightarrow>
            (let (evs', r) = Handler_special_handlers e signo slots info' uc' w'
             in (evs @ evs', r)))"

text \<open>The diagnostic of the \<^verbatim>\<open>__aarch64__\<close> branch (lines 457 to 473).\<close>
definition Handler_already_handling :: "int \<Rightarrow> world \<Rightarrow> world" where
  "Handler_already_handling signo w =
     (let bit_idx = (word_of_int (signo - 1) :: 64 word);
          key_idx = bit_idx div kNumSignalsPerKey;
          expected = push_bit (unat (bit_idx mod kNumSignalsPerKey)) (1 :: 64 word);
          val = pthread_getspecific (GetHandlingSignalKey (unat key_idx)) w
      in if val \<noteq> expected
         then LogError ''Already handling signal %d, value=0x%lx differs from expected=0x%lx'' w
         else w)"

text \<open>Lines 435 to 474: the special handlers run only when the handling bit is clear.\<close>
definition Handler_special_phase ::
    "env \<Rightarrow> int \<Rightarrow> siginfo \<Rightarrow> ucontext \<Rightarrow> world \<Rightarrow> event list \<times> phase" where
  "Handler_special_phase e signo info uc w =
     (if \<not> GetHandlingSignal signo w
      then Handler_special_handlers e signo [0, 1] info uc w
      else ([], Next info uc (Handler_already_handling signo w)))"

text \<open>Line 491: \<^verbatim>\<open>android_handle_signal\<close>, when the symbol is there.\<close>
definition Handler_recovery_phase ::
    "env \<Rightarrow> int \<Rightarrow> siginfo \<Rightarrow> ucontext \<Rightarrow> world \<Rightarrow> event list \<times> phase" where
  "Handler_recovery_phase e signo info uc w =
     (case android_handle_signal e of
        None \<Rightarrow> ([], Next info uc w)
      | Some f \<Rightarrow>
          (case f signo info uc w of
             None \<Rightarrow> ([CallAndroidHandleSignal signo], Done NoReturn)
           | Some (True, info', uc', w') \<Rightarrow>
               ([CallAndroidHandleSignal signo], Done (Returned info' uc' w'))
           | Some (False, info', uc', w') \<Rightarrow>
               ([CallAndroidHandleSignal signo], Next info' uc' w')))"

text \<open>bionic's \<^verbatim>\<open>untag_address\<close> on aarch64: the top byte of the pointer is cleared.\<close>
definition untag_address :: "64 word \<Rightarrow> 64 word" where
  "untag_address p = p AND mask 56"

text \<open>
  Lines 495 to 508: the action to forward to, and the state after the diagnostic of the
  MTE branch. \<^verbatim>\<open>mallopt\<close> is only asked for a tag-check fault of \<^verbatim>\<open>SIGSEGV\<close>.
\<close>
definition Handler_select_action :: "int \<Rightarrow> siginfo \<Rightarrow> world \<Rightarrow> struct_sigaction \<times> world" where
  "Handler_select_action signo info w =
     (if signo = SIGSEGV \<and> (si_code info = SEGV_MTEAERR \<or> si_code info = SEGV_MTESERR) \<and>
         mallopt_intercept_mte_sigsegv w = 1
      then (orig_action (chains w SIGSEGV),
            LogError ''reverting to orig_action_ for MTE SEGV, si_code %d'' w)
      else (action (chains w signo), w))"

text \<open>Lines 510 to 522: the mask for the user's handler.\<close>
definition Handler_mask :: "int \<Rightarrow> ucontext \<Rightarrow> struct_sigaction \<Rightarrow> sigset" where
  "Handler_mask signo uc act =
     (let handler_flags = sa_flags act;
          mask = sigorset (uc_sigmask64 uc) (sa_mask act)
      in if handler_flags AND SA_NODEFER = 0 then sigaddset mask signo else mask)"

text \<open>
  Lines 534 to 541: a three-argument handler that does not expect tag bits gets the fault
  address without them.
\<close>
definition Handler_untag :: "int \<Rightarrow> flags \<Rightarrow> siginfo \<Rightarrow> siginfo" where
  "Handler_untag signo handler_flags info =
     (if handler_flags AND SA_EXPOSE_TAGBITS = 0 \<and>
         (signo = SIGILL \<or> signo = SIGFPE \<or> signo = SIGSEGV \<or>
          signo = SIGBUS \<or> signo = SIGTRAP) \<and>
         si_code info > SI_USER \<and> si_code info < SI_KERNEL \<and>
         \<not> (signo = SIGTRAP \<and> si_code info = TRAP_HWBKPT)
      then info\<lparr>si_addr := untag_address (si_addr info)\<rparr> else info)"

text \<open>What building that mask does to \<^verbatim>\<open>errno\<close>.\<close>
definition Handler_mask_errno :: "int \<Rightarrow> struct_sigaction \<Rightarrow> world \<Rightarrow> world" where
  "Handler_mask_errno signo act w =
     (let w1 = sigorset_errno w
      in if sa_flags act AND SA_NODEFER = 0 then sigset_errno signo w1 else w1)"

text \<open>Lines 495 to 561: forward to the user's signal handler.\<close>
definition Handler_forward ::
    "env \<Rightarrow> int \<Rightarrow> siginfo \<Rightarrow> ucontext \<Rightarrow> world \<Rightarrow> event list \<times> outcome" where
  "Handler_forward e signo info uc w =
     (let (act, w1) = Handler_select_action signo info w;
          handler_flags = sa_flags act;
          mask = Handler_mask signo uc act;
          (rc, old, w2) = linked_sigprocmask64 SIG_SETMASK (Some mask)
                            (Handler_mask_errno signo act w1);
          ev_mask = [LinkedSigprocmask SIG_SETMASK (Some mask)]
      in if handler_flags AND SA_SIGINFO \<noteq> 0 then
           let info1 = Handler_untag signo handler_flags info
           in (ev_mask @ [CallSigaction (sa_handler act) signo],
               case sigaction_fn e (sa_handler act) signo info1 uc w2 of
                 None \<Rightarrow> NoReturn
               | Some (info', uc', w3) \<Rightarrow> Returned info' uc' w3)
         else
           let handler = sa_handler act in
           if handler = SIG_IGN then (ev_mask, Returned info uc w2)
           else if handler = SIG_DFL then
             let w3 = LogStack
                        (LogError ''reverting to SIG_DFL handler for signal %d, ucontext %p'' w2);
                 dfl = \<lparr>sa_flags = 0, sa_handler = SIG_DFL, sa_mask = 0, sa_restorer = nullptr\<rparr>;
                 (rc', old', w4) = linked_sigaction signo (Some dfl) w3
             in (ev_mask @ [LinkedSigaction signo (Some dfl)], Returned info uc w4)
           else
             (ev_mask @ [CallHandler handler signo],
              case handler_fn e handler signo w2 of
                None \<Rightarrow> NoReturn
              | Some w3 \<Rightarrow> Returned info uc w3))"

text \<open>Lines 476 to 561: what the dispatcher does after the special handlers.\<close>
definition Handler_rest ::
    "env \<Rightarrow> int \<Rightarrow> siginfo \<Rightarrow> ucontext \<Rightarrow> world \<Rightarrow> event list \<times> outcome" where
  "Handler_rest e signo info uc w =
     (case Handler_recovery_phase e signo info uc w of
        (evs2, Done out) \<Rightarrow> (evs2, out)
      | (evs2, Next info2 uc2 w2) \<Rightarrow>
          (let (evs3, out) = Handler_forward e signo info2 uc2 w2
           in (evs2 @ evs3, out)))"

definition Handler :: "env \<Rightarrow> int \<Rightarrow> siginfo \<Rightarrow> ucontext \<Rightarrow> world \<Rightarrow> event list \<times> outcome" where
  "Handler e signo info uc w =
     (case Handler_special_phase e signo info uc w of
        (evs1, Done out) \<Rightarrow> (evs1, out)
      | (evs1, Next info1 uc1 w1) \<Rightarrow>
          (let (evs, out) = Handler_rest e signo info1 uc1 w1
           in (evs1 @ evs, out)))"

subsection \<open>The interposed functions (lines 564 to 697)\<close>

text \<open>
  A pointer argument is an option: \<open>None\<close> is the null pointer, \<open>Some v\<close> a pointer to an
  object holding \<open>v\<close>. A function returns the calls it made, its result, what the object
  behind \<^verbatim>\<open>old\<close> holds afterwards, and the state.

  \<^verbatim>\<open>__sigaction<SigactionType>\<close> (the parameter \<^verbatim>\<open>signal\<close> is \<open>signo\<close> here): the instance is
  given by its \<^verbatim>\<open>GetAction\<close>, its \<^verbatim>\<open>SetAction\<close> and the real function \<^verbatim>\<open>linked\<close>.
  \<open>sigaction_sigsegv_dfl\<close> is the diagnostic of lines 582 to 585.
\<close>
definition sigaction_sigsegv_dfl :: "int \<Rightarrow> struct_sigaction option \<Rightarrow> world \<Rightarrow> world" where
  "sigaction_sigsegv_dfl signo new_action w =
     (case new_action of
        None \<Rightarrow> w
      | Some n \<Rightarrow>
          if signo = SIGSEGV \<and> sa_handler n = SIG_DFL
          then LogStack (LogError ''Setting SIGSEGV to SIG_DFL'' w) else w)"

definition sigaction_impl ::
    "(SignalChain \<Rightarrow> struct_sigaction) \<Rightarrow> (struct_sigaction \<Rightarrow> SignalChain \<Rightarrow> SignalChain) \<Rightarrow>
     (int \<Rightarrow> struct_sigaction option \<Rightarrow> world \<Rightarrow> int \<times> struct_sigaction option \<times> world) \<Rightarrow>
     int \<Rightarrow> struct_sigaction option \<Rightarrow> struct_sigaction option \<Rightarrow> world \<Rightarrow>
     event list \<times> int \<times> struct_sigaction option \<times> world" where
  "sigaction_impl get_action set_action linked signo new_action old_action w =
     (if is_signal_hook_debuggable w then ([], 0, old_action, w)
      else if signo \<le> 0 \<or> NSIG \<le> signo then ([], - 1, old_action, w\<lparr>errno := EINVAL\<rparr>)
      else
        let w1 = sigaction_sigsegv_dfl signo new_action w
        in if IsClaimed (chains w1 signo) then
             let saved_action = get_action (chains w1 signo);
                 w2 = (case new_action of
                         None \<Rightarrow> w1
                       | Some n \<Rightarrow> update_chain signo (set_action n) w1)
             in ([], 0, store_old old_action (Some saved_action), w2)
           else
             let (rc, written, w2) = linked signo new_action w1
             in ([LinkedSigaction signo new_action], rc, store_old old_action written, w2))"

definition sigaction ::
    "int \<Rightarrow> struct_sigaction option \<Rightarrow> struct_sigaction option \<Rightarrow> world \<Rightarrow>
     event list \<times> int \<times> struct_sigaction option \<times> world" where
  "sigaction = sigaction_impl GetAction SetAction linked_sigaction"

definition sigaction64 ::
    "int \<Rightarrow> struct_sigaction option \<Rightarrow> struct_sigaction option \<Rightarrow> world \<Rightarrow>
     event list \<times> int \<times> struct_sigaction option \<times> world" where
  "sigaction64 = sigaction_impl GetAction64 SetAction64 linked_sigaction64"

text \<open>\<^verbatim>\<open>signal\<close> (lines 617 to 647): the calls it made, the handler it returns, the state.\<close>
definition signal :: "int \<Rightarrow> fnptr \<Rightarrow> world \<Rightarrow> event list \<times> fnptr \<times> world" where
  "signal signo handler w =
     (if signo \<le> 0 \<or> NSIG \<le> signo then ([], SIG_ERR, w\<lparr>errno := EINVAL\<rparr>)
      else
        let sa = \<lparr>sa_flags = SA_RESTART OR SA_ONSTACK, sa_handler = handler,
                  sa_mask = sigemptyset, sa_restorer = nullptr\<rparr>
        in if IsClaimed (chains w signo) then
             let oldhandler = sa_handler (GetAction (chains w signo))
             in ([], oldhandler, update_chain signo (SetAction sa) w)
           else
             let (rc, written, w1) = linked_sigaction signo (Some sa) w;
                 sa' = (case written of None \<Rightarrow> sa | Some a \<Rightarrow> a)
             in if rc = - 1 then ([LinkedSigaction signo (Some sa)], SIG_ERR, w1)
                else ([LinkedSigaction signo (Some sa)], sa_handler sa', w1))"

text \<open>
  \<^verbatim>\<open>__sigprocmask<SigsetType>\<close> (lines 657 to 683); both instances have the same sets
  here. The loop of lines 673 to 677 runs over the signals 1 to \<^verbatim>\<open>_NSIG - 1\<close>, which
  \<^verbatim>\<open>sigismember\<close> and \<^verbatim>\<open>sigdelset\<close> never refuse, so \<^verbatim>\<open>errno\<close> stays.
\<close>
definition sigprocmask_filter :: "world \<Rightarrow> sigset \<Rightarrow> sigset" where
  "sigprocmask_filter w new_set =
     fold (\<lambda>i tmpset. if IsClaimed (chains w i) \<and> sigismember tmpset i \<noteq> 0
                       then sigdelset tmpset i else tmpset)
          [1..NSIG - 1] new_set"

definition sigprocmask_impl ::
    "(int \<Rightarrow> sigset option \<Rightarrow> world \<Rightarrow> int \<times> sigset option \<times> world) \<Rightarrow>
     int \<Rightarrow> sigset option \<Rightarrow> sigset option \<Rightarrow> world \<Rightarrow>
     event list \<times> int \<times> sigset option \<times> world" where
  "sigprocmask_impl linked how new_set old_set w =
     (if GetHandlingSignal_any w then
        let (rc, written, w1) = linked how new_set w
        in ([LinkedSigprocmask how new_set], rc, store_old old_set written, w1)
      else
        let new_set_ptr =
              (case new_set of
                 None \<Rightarrow> None
               | Some s \<Rightarrow>
                   Some (if how = SIG_BLOCK \<or> how = SIG_SETMASK
                         then sigprocmask_filter w s else s));
            (rc, written, w1) = linked how new_set_ptr w
        in ([LinkedSigprocmask how new_set_ptr], rc, store_old old_set written, w1))"

definition sigprocmask ::
    "int \<Rightarrow> sigset option \<Rightarrow> sigset option \<Rightarrow> world \<Rightarrow>
     event list \<times> int \<times> sigset option \<times> world" where
  "sigprocmask = sigprocmask_impl linked_sigprocmask"

definition sigprocmask64 ::
    "int \<Rightarrow> sigset option \<Rightarrow> sigset option \<Rightarrow> world \<Rightarrow>
     event list \<times> int \<times> sigset option \<times> world" where
  "sigprocmask64 = sigprocmask_impl linked_sigprocmask64"

subsection \<open>The interface for the runtime (lines 699 to 747)\<close>

text \<open>\<^verbatim>\<open>fatal\<close> aborts the process: \<open>Inl\<close> with the message.\<close>
definition AddSpecialSignalHandlerFn :: "int \<Rightarrow> SigchainAction \<Rightarrow> world \<Rightarrow> string + world" where
  "AddSpecialSignalHandlerFn signo sa w =
     (if signo \<le> 0 \<or> NSIG \<le> signo then Inl ''Invalid signal %d''
      else case AddSpecialHandler sa (chains w signo) of
             Inl msg \<Rightarrow> Inl msg
           | Inr this \<Rightarrow> Inr (Claim signo (w\<lparr>chains := (chains w)(signo := this)\<rparr>)))"

definition EnsureFrontOfChain :: "int \<Rightarrow> world \<Rightarrow> string + world" where
  "EnsureFrontOfChain signo w =
     (if signo \<le> 0 \<or> NSIG \<le> signo then Inl ''Invalid signal %d''
      else
        let (rc, written, w1) = linked_sigaction64 signo None w in
        case written of
          None \<Rightarrow> Inr w1 \<comment> \<open>not reached: reading the disposition of a signal from 1 to 64 succeeds\<close>
        | Some current_action \<Rightarrow>
            if sa_handler current_action \<noteq> Handler_addr
            then Inr (Register signo
                        (LogError (''Warning: Unexpected sigaction action found %p'' @ [CHR 0x0A]) w1))
            else Inr w1)"

definition SkipAddSignalHandler :: "bool \<Rightarrow> world \<Rightarrow> world" where
  "SkipAddSignalHandler val w = w\<lparr>is_signal_hook_debuggable := val\<rparr>"

subsection \<open>Reading the calls of a run\<close>

fun is_special_call :: "event \<Rightarrow> bool" where
  "is_special_call (CallSpecial h signo b m) = True"
| "is_special_call ev = False"

fun is_user_call :: "event \<Rightarrow> bool" where
  "is_user_call (CallSigaction h signo) = True"
| "is_user_call (CallHandler h signo) = True"
| "is_user_call ev = False"


text \<open>
  The handling bit of the calling thread for signal \<open>s\<close>, read from the thread's store:
  bit \<open>(s - 1) mod 64\<close> of the word under key \<open>(s - 1) div 64\<close>.
\<close>
definition handling_bit :: "int \<Rightarrow> world \<Rightarrow> bool" where
  "handling_bit s w = bit (handling_tls w (nat (s - 1) div 64)) (nat (s - 1) mod 64)"


text \<open>The calls of a user handler that forwarding to action \<open>act\<close> makes.\<close>
definition user_calls_of :: "int \<Rightarrow> struct_sigaction \<Rightarrow> event list" where
  "user_calls_of signo act =
     (if sa_flags act AND SA_SIGINFO \<noteq> 0 then [CallSigaction (sa_handler act) signo]
      else if sa_handler act = SIG_IGN \<or> sa_handler act = SIG_DFL then []
      else [CallHandler (sa_handler act) signo])"

subsection \<open>States and handlers to run the model on\<close>

text \<open>
  The state of a process that has just loaded the library: the chain records are zero
  (BSS), every disposition is the default, nothing is blocked. The kernel is one that
  clears the flags it does not know and knows \<^verbatim>\<open>SA_EXPOSE_TAGBITS\<close>.
\<close>
definition sigaction_zero :: struct_sigaction where
  "sigaction_zero = \<lparr>sa_flags = 0, sa_handler = SIG_DFL, sa_mask = 0, sa_restorer = nullptr\<rparr>"

definition slot_zero :: SigchainAction where
  "slot_zero = \<lparr>sc_sigaction = nullptr, sc_mask = 0, sc_flags = 0\<rparr>"

definition chain_zero :: SignalChain where
  "chain_zero =
     \<lparr>claimed = False, kernel_supported_flags = 0, action = sigaction_zero,
      orig_action = sigaction_zero, special_handlers = [slot_zero, slot_zero]\<rparr>"

definition world_zero :: world where
  "world_zero =
     \<lparr>chains = (\<lambda>signo. chain_zero),
      is_signal_hook_debuggable = False,
      kernel_actions = (\<lambda>signo. sigaction_zero),
      kernel_flag_mask = 0xDC000807,
      mallopt_intercept_mte_sigsegv = 0,
      logcat = [],
      handling_tls = (\<lambda>key. 0),
      thread_sigmask = 0,
      errno = 0\<rparr>"

text \<open>
  Handlers that change nothing: the special handlers return false, there is no
  \<^verbatim>\<open>android_handle_signal\<close>, the user handlers return.
\<close>
definition env_pass :: env where
  "env_pass =
     \<lparr>special_fn = (\<lambda>h signo info uc w. Some (False, info, uc, w)),
      android_handle_signal = None,
      sigaction_fn = (\<lambda>h signo info uc w. Some (info, uc, w)),
      handler_fn = (\<lambda>h signo w. Some w)\<rparr>"


definition siginfo_zero :: siginfo where
  "siginfo_zero = \<lparr>si_signo = 0, si_code = 0, si_addr = 0\<rparr>"

definition ucontext_zero :: ucontext where
  "ucontext_zero = \<lparr>uc_sigmask64 = 0, uc_mcontext = []\<rparr>"

text \<open>
  The runtime has registered a special handler for \<^verbatim>\<open>SIGSEGV\<close>, which claims the signal.
  A registration that aborted would leave the process with nothing to run.
\<close>
definition runtime_handler :: SigchainAction where
  "runtime_handler = \<lparr>sc_sigaction = 0xA000, sc_mask = 0, sc_flags = 0\<rparr>"

definition world_claimed :: world where
  "world_claimed =
     (case AddSpecialSignalHandlerFn SIGSEGV runtime_handler world_zero of
        Inr w \<Rightarrow> w
      | Inl msg \<Rightarrow> world_zero)"

text \<open>An action of the application: a three-argument handler and a flag no kernel knows.\<close>
definition user_action :: struct_sigaction where
  "user_action =
     \<lparr>sa_flags = SA_SIGINFO OR SA_RESTART OR SA_UNSUPPORTED, sa_handler = 0xB000,
      sa_mask = 0, sa_restorer = nullptr\<rparr>"

text \<open>The application has then installed \<open>user_action\<close> for \<^verbatim>\<open>SIGSEGV\<close>.\<close>
definition world_user :: world where
  "world_user = snd (snd (snd (sigaction SIGSEGV (Some user_action) None world_claimed)))"

text \<open>The same thread while a special handler for \<^verbatim>\<open>SIGSEGV\<close> runs.\<close>
definition world_handling :: world where
  "world_handling = snd (SetHandlingSignal SIGSEGV True world_user)"

text \<open>
  A process whose allocator asks for tag-check faults to go to the original action: the
  application installs \<open>first_action\<close>, the runtime claims \<^verbatim>\<open>SIGSEGV\<close>, the application
  installs \<open>user_action\<close>. \<open>siginfo_mte\<close> is a synchronous tag-check fault.
\<close>
definition first_action :: struct_sigaction where
  "first_action =
     \<lparr>sa_flags = SA_SIGINFO, sa_handler = 0xC000, sa_mask = 0, sa_restorer = nullptr\<rparr>"



text \<open>
  The context of a thread that had the last real-time signal, number 64, blocked when
  the signal arrived.
\<close>
definition SIGRTMAX :: int where
  "SIGRTMAX = 64"

definition ucontext_rtmax :: ucontext where
  "ucontext_rtmax = \<lparr>uc_sigmask64 = sigaddset sigemptyset SIGRTMAX, uc_mcontext = []\<rparr>"

text \<open>
  A thread that blocked \<^verbatim>\<open>SIGSEGV\<close> through the interposed \<^verbatim>\<open>sigprocmask\<close> before the
  runtime claimed the signal; and a set an application may ask to block.
\<close>
definition world_preblocked :: world where
  "world_preblocked =
     (let w1 = snd (snd (snd (sigprocmask SIG_BLOCK (Some (sigaddset sigemptyset SIGSEGV)) None
                                world_zero)))
      in case AddSpecialSignalHandlerFn SIGSEGV runtime_handler w1 of
           Inr w \<Rightarrow> w
         | Inl msg \<Rightarrow> w1)"

definition SIGUSR1 :: int where
  "SIGUSR1 = 10"

definition segv_and_usr1 :: sigset where
  "segv_and_usr1 = sigaddset (sigaddset sigemptyset SIGSEGV) SIGUSR1"

text \<open>
  A process in which the runtime has registered a special handler for \<^verbatim>\<open>SIGKILL\<close> and
  the application has then installed \<open>user_action\<close> for it.
\<close>
definition world_kill :: world where
  "world_kill =
     (case AddSpecialSignalHandlerFn SIGKILL runtime_handler world_zero of
        Inr w \<Rightarrow> snd (snd (snd (sigaction SIGKILL (Some user_action) None w)))
      | Inl msg \<Rightarrow> world_zero)"

text \<open>
  A process in which, after the runtime claimed \<^verbatim>\<open>SIGSEGV\<close> and the application installed
  \<open>user_action\<close>, some library installed \<open>first_action\<close> with the real \<^verbatim>\<open>sigaction\<close>.
\<close>
definition world_clobbered :: world where
  "world_clobbered = snd (snd (real_sigaction SIGSEGV (Some first_action) world_user))"

text \<open>The action \<^verbatim>\<open>signal\<close> builds for a handler (lines 625 to 628).\<close>
definition signal_action :: "fnptr \<Rightarrow> struct_sigaction" where
  "signal_action handler =
     \<lparr>sa_flags = SA_RESTART OR SA_ONSTACK, sa_handler = handler,
      sa_mask = sigemptyset, sa_restorer = nullptr\<rparr>"

text \<open>
  Two states of one thread between which the library's own tables, the kernel's
  dispositions and the allocator's answer have not changed.
\<close>
definition same_process :: "world \<Rightarrow> world \<Rightarrow> bool" where
  "same_process w w' =
     (chains w' = chains w \<and> mallopt_intercept_mte_sigsegv w' = mallopt_intercept_mte_sigsegv w \<and>
      is_signal_hook_debuggable w' = is_signal_hook_debuggable w \<and>
      kernel_actions w' = kernel_actions w)"

section \<open>Properties\<close>

subsection \<open>Basic facts\<close>
lemma kernel_actions_update_chain [simp]:
  "kernel_actions (update_chain s f w) = kernel_actions w"
  by (simp add: update_chain_def)

lemma update_chain_others [simp]:
  "is_signal_hook_debuggable (update_chain s f w) = is_signal_hook_debuggable w"
  "kernel_flag_mask (update_chain s f w) = kernel_flag_mask w"
  "mallopt_intercept_mte_sigsegv (update_chain s f w) = mallopt_intercept_mte_sigsegv w"
  "logcat (update_chain s f w) = logcat w"
  "handling_tls (update_chain s f w) = handling_tls w"
  "thread_sigmask (update_chain s f w) = thread_sigmask w"
  "errno (update_chain s f w) = errno w"
  by (simp_all add: update_chain_def)

lemma chains_update_chain [simp]:
  "chains (update_chain s f w) = (chains w)(s := f (chains w s))"
  by (simp add: update_chain_def)

lemma real_sigaction_read:
  "0 < signo \<Longrightarrow> signo < NSIG \<Longrightarrow>
   real_sigaction signo None w = (0, Some (kernel_actions w signo), w)"
  by (simp add: real_sigaction_def)

subsection \<open>Signal sets\<close>
lemma sigismember_bit:
  "0 < i \<Longrightarrow> i \<le> 64 \<Longrightarrow> sigismember s i = (if bit s (nat (i - 1)) then 1 else 0)"
  by (simp add: sigismember_def sigset_bits_def)

lemma sigismember_invalid:
  "i \<le> 0 \<or> 64 < i \<Longrightarrow> sigismember s i = - 1"
  by (auto simp: sigismember_def sigset_bits_def)

lemma bit_sigaddset:
  "bit (sigaddset s i) k = (bit s k \<or> (0 < i \<and> i \<le> 64 \<and> k = nat (i - 1)))"
  by (auto simp: sigaddset_def sigset_bits_def bit_set_bit_iff)

lemma bit_sigdelset:
  "bit (sigdelset s i) k = (bit s k \<and> \<not> (0 < i \<and> i \<le> 64 \<and> k = nat (i - 1)))"
  by (auto simp: sigdelset_def sigset_bits_def bit_unset_bit_iff)

text \<open>
  What \<^verbatim>\<open>sigorset\<close> computes: the loop index runs over 0 to 63 and is used as a signal
  number, so the union covers the signals 1 to 63 and never signal 64.
\<close>
lemma sigorset_fold:
  "bit (fold (\<lambda>i dest. if sigismember left (int i) = 1 \<or> sigismember right (int i) = 1
                     then sigaddset dest (int i) else dest) [0..<n] acc) k =
   (bit acc k \<or> (Suc k < n \<and> k < 64 \<and> (bit left k \<or> bit right k)))"
proof (induction n)
  case 0
  then show ?case by simp
next
  case (Suc n)
  show ?case
  proof (cases "0 < n \<and> n \<le> 64")
    case True
    then have v: "0 < int n" "int n \<le> 64" by simp_all
    have n: "nat (int n - 1) = n - 1" by simp
    have k: "k = n - 1 \<or> Suc k < n \<or> n \<le> k" by arith
    show ?thesis
      using True Suc k
      by (auto simp: sigismember_bit [OF v] bit_sigaddset n)
  next
    case False
    then have "int n \<le> 0 \<or> 64 < int n" by auto
    then show ?thesis using Suc False
      by (auto simp: sigismember_invalid)
  qed
qed

lemma sigorset_eq: "sigorset left right = (left OR right) AND mask 63"
  by (rule bit_eqI) (auto simp: sigorset_def sigemptyset_def sigset_bits_def sigorset_fold bit_simps)

lemma Handler_mask_eq:
  "Handler_mask signo uc act =
     (if sa_flags act AND SA_NODEFER = 0
      then sigaddset ((uc_sigmask64 uc OR sa_mask act) AND mask 63) signo
      else (uc_sigmask64 uc OR sa_mask act) AND mask 63)"
  by (simp add: Handler_mask_def sigorset_eq)

subsection \<open>Signal numbers out of range\<close>

text \<open>
  C7 (amended). While \<^verbatim>\<open>is_signal_hook_debuggable\<close> is false, the interposed
  \<^verbatim>\<open>sigaction\<close> and \<^verbatim>\<open>sigaction64\<close> answer a signal number \<open>signo \<le> 0\<close> or
  \<open>signo \<ge> NSIG\<close> with \<open>- 1\<close> and \<^verbatim>\<open>errno = EINVAL\<close>, for every \<^verbatim>\<open>new\<close>, \<^verbatim>\<open>old\<close> and
  state; they call nothing, and leave \<^verbatim>\<open>*old\<close> and the rest of the state as they are.
\<close>
theorem sigaction_out_of_range:
  assumes "\<not> is_signal_hook_debuggable w" and "signo \<le> 0 \<or> NSIG \<le> signo"
  shows "sigaction signo new old w = ([], - 1, old, w\<lparr>errno := EINVAL\<rparr>) \<and>
         sigaction64 signo new old w = ([], - 1, old, w\<lparr>errno := EINVAL\<rparr>)"
  using assms by (simp add: sigaction_def sigaction64_def sigaction_impl_def)

theorem sigaction_out_of_range_witness:
  "\<not> is_signal_hook_debuggable world_zero \<and> (NSIG \<le> 0 \<or> NSIG \<le> NSIG) \<and>
   sigaction NSIG None (Some sigaction_zero) world_zero =
     ([], - 1, Some sigaction_zero, world_zero\<lparr>errno := EINVAL\<rparr>) \<and>
   sigaction64 NSIG None (Some sigaction_zero) world_zero =
     ([], - 1, Some sigaction_zero, world_zero\<lparr>errno := EINVAL\<rparr>)"
  using sigaction_out_of_range [of world_zero NSIG None "Some sigaction_zero"]
  by (simp add: world_zero_def)

text \<open>
  The claim as written fails after \<^verbatim>\<open>SkipAddSignalHandler(true)\<close>: line 569 returns 0
  before the range check of line 577, and \<^verbatim>\<open>errno\<close> keeps its value.
\<close>
theorem sigaction_out_of_range_counterexample:
  "sigaction 0 None None (SkipAddSignalHandler True world_zero) =
     ([], 0, None, SkipAddSignalHandler True world_zero) \<and>
   errno (SkipAddSignalHandler True world_zero) = 0"
  by (simp add: sigaction_def sigaction_impl_def SkipAddSignalHandler_def world_zero_def)

subsection \<open>The flags the kernel supports\<close>
lemma Register_kernel_supported_flags:
  assumes "0 < signo" and "signo < NSIG"
  shows "kernel_supported_flags (chains (Register signo w) signo) =
     (SA_NOCLDSTOP OR SA_NOCLDWAIT OR SA_SIGINFO OR SA_ONSTACK OR SA_RESTART OR
      SA_NODEFER OR SA_RESETHAND OR SA_RESTORER) OR
     (if sa_flags (kernel_actions (Register signo w) signo) AND SA_UNSUPPORTED = 0 \<and>
         sa_flags (kernel_actions (Register signo w) signo) AND SA_EXPOSE_TAGBITS \<noteq> 0
      then SA_EXPOSE_TAGBITS else 0)"
  using assms
  apply (simp add: Register_def linked_sigaction64_def Let_def split: prod.splits option.splits)
  apply (auto simp: real_sigaction_def or.assoc split: if_splits)
  done

lemma baseline_without_tagbits:
  "(SA_NOCLDSTOP OR SA_NOCLDWAIT OR SA_SIGINFO OR SA_ONSTACK OR SA_RESTART OR
    SA_NODEFER OR SA_RESETHAND OR SA_RESTORER) AND SA_EXPOSE_TAGBITS = 0"
  by (simp add: SA_NOCLDSTOP_def SA_NOCLDWAIT_def SA_SIGINFO_def SA_ONSTACK_def SA_RESTART_def
      SA_NODEFER_def SA_RESETHAND_def SA_RESTORER_def SA_EXPOSE_TAGBITS_def)

lemma SA_EXPOSE_TAGBITS_nonzero: "SA_EXPOSE_TAGBITS \<noteq> 0"
  by (simp add: SA_EXPOSE_TAGBITS_def)

lemma Claim_unclaimed:
  "\<not> IsClaimed (chains w signo) \<Longrightarrow>
   Claim signo w = update_chain signo (\<lambda>this. this\<lparr>claimed := True\<rparr>) (Register signo w)"
  by (simp add: Claim_def IsClaimed_def)

text \<open>
  C8. When a signal from 1 to 64 is claimed for the first time, \<^verbatim>\<open>kernel_supported_flags_\<close>
  becomes the baseline \<^verbatim>\<open>SA_NOCLDSTOP | SA_NOCLDWAIT | SA_SIGINFO | SA_ONSTACK | SA_RESTART |
  SA_NODEFER | SA_RESETHAND | SA_RESTORER\<close>, together with \<^verbatim>\<open>SA_EXPOSE_TAGBITS\<close> exactly if the
  action read back from the kernel (the one the kernel holds for the signal after the
  registration) has \<^verbatim>\<open>SA_UNSUPPORTED\<close> clear and \<^verbatim>\<open>SA_EXPOSE_TAGBITS\<close> set.
\<close>
theorem Claim_kernel_supported_flags:
  assumes "0 < signo" and "signo < NSIG" and "\<not> IsClaimed (chains w signo)"
  shows "let w' = Claim signo w;
             read_back = sa_flags (kernel_actions w' signo);
             tagbits = (read_back AND SA_UNSUPPORTED = 0 \<and> read_back AND SA_EXPOSE_TAGBITS \<noteq> 0)
         in IsClaimed (chains w' signo) \<and>
            kernel_supported_flags (chains w' signo) =
              (SA_NOCLDSTOP OR SA_NOCLDWAIT OR SA_SIGINFO OR SA_ONSTACK OR SA_RESTART OR
               SA_NODEFER OR SA_RESETHAND OR SA_RESTORER) OR
              (if tagbits then SA_EXPOSE_TAGBITS else 0) \<and>
            (kernel_supported_flags (chains w' signo) AND SA_EXPOSE_TAGBITS \<noteq> 0) = tagbits"
proof -
  have flags: "kernel_supported_flags (chains (Claim signo w) signo) =
      kernel_supported_flags (chains (Register signo w) signo)"
    and kern: "kernel_actions (Claim signo w) = kernel_actions (Register signo w)"
    and cl: "IsClaimed (chains (Claim signo w) signo)"
    using assms(3) by (simp_all add: Claim_unclaimed IsClaimed_def)
  show ?thesis
    unfolding Let_def flags kern
    using cl baseline_without_tagbits SA_EXPOSE_TAGBITS_nonzero
    by (simp add: Register_kernel_supported_flags [OF assms(1,2)] bit.conj_disj_distrib2)
qed

theorem Claim_kernel_supported_flags_witness:
  "0 < SIGSEGV \<and> SIGSEGV < NSIG \<and> \<not> IsClaimed (chains world_zero SIGSEGV) \<and>
   (let w' = Claim SIGSEGV world_zero;
        read_back = sa_flags (kernel_actions w' SIGSEGV);
        tagbits = (read_back AND SA_UNSUPPORTED = 0 \<and> read_back AND SA_EXPOSE_TAGBITS \<noteq> 0)
    in IsClaimed (chains w' SIGSEGV) \<and>
       kernel_supported_flags (chains w' SIGSEGV) =
         (SA_NOCLDSTOP OR SA_NOCLDWAIT OR SA_SIGINFO OR SA_ONSTACK OR SA_RESTART OR
          SA_NODEFER OR SA_RESETHAND OR SA_RESTORER) OR
         (if tagbits then SA_EXPOSE_TAGBITS else 0) \<and>
       (kernel_supported_flags (chains w' SIGSEGV) AND SA_EXPOSE_TAGBITS \<noteq> 0) = tagbits)"
  using Claim_kernel_supported_flags [of SIGSEGV world_zero]
  by (simp add: SIGSEGV_def NSIG_def IsClaimed_def world_zero_def chain_zero_def)

subsection \<open>The interposed sigaction on a claimed signal\<close>
lemma GetAction_eq: "GetAction this = action this"
  by (simp add: GetAction_def)

lemma SetAction_eq: "SetAction n this = this\<lparr>action := n\<lparr>sa_flags := sa_flags n AND kernel_supported_flags this\<rparr>\<rparr>"
  by (simp add: SetAction_def Let_def)

lemma SetAction64_eq: "SetAction64 n this = this\<lparr>action := n\<lparr>sa_flags := sa_flags n AND kernel_supported_flags this\<rparr>\<rparr>"
  by (simp add: SetAction64_def Let_def)

text \<open>On LP64 the two instances of \<^verbatim>\<open>__sigaction\<close> do the same.\<close>
lemma sigaction64_eq_sigaction: "sigaction64 = sigaction"
proof -
  have "GetAction64 = GetAction"
    by (rule ext) (simp add: GetAction_eq GetAction64_def)
  moreover have "SetAction64 = SetAction"
    by (rule ext, rule ext) (simp add: SetAction_eq SetAction64_eq)
  ultimately show ?thesis
    by (simp add: sigaction_def sigaction64_def linked_sigaction_def linked_sigaction64_def)
qed

lemma diag_simps [simp]:
  "chains (sigaction_sigsegv_dfl signo new w) = chains w"
  "is_signal_hook_debuggable (sigaction_sigsegv_dfl signo new w) = is_signal_hook_debuggable w"
  "kernel_actions (sigaction_sigsegv_dfl signo new w) = kernel_actions w"
  by (simp_all add: sigaction_sigsegv_dfl_def LogStack_def LogError_def split: option.splits)

lemma diag_None [simp]: "sigaction_sigsegv_dfl signo None w = w"
  by (simp add: sigaction_sigsegv_dfl_def)

lemma sigaction_claimed_eq:
  assumes "\<not> is_signal_hook_debuggable w" "0 < s" "s < NSIG" "IsClaimed (chains w s)"
  shows "sigaction s new old w =
     ([], 0, (case old of None \<Rightarrow> None | Some v \<Rightarrow> Some (action (chains w s))),
      (case new of None \<Rightarrow> w
       | Some n \<Rightarrow> update_chain s (SetAction n) (sigaction_sigsegv_dfl s new w)))"
  using assms
  by (cases old) (simp_all add: sigaction_def sigaction_impl_def Let_def GetAction_eq store_old_def split: option.splits)

lemma SIGSEGV_valid:
  "0 < SIGSEGV" "SIGSEGV < NSIG" "\<not> SIGSEGV \<le> 0" "\<not> NSIG \<le> SIGSEGV"
  by (simp_all add: SIGSEGV_def NSIG_def)

lemma world_claimed_eq:
  "world_claimed = update_chain SIGSEGV (\<lambda>this. this\<lparr>claimed := True\<rparr>)
      (Register SIGSEGV (world_zero\<lparr>chains := (chains world_zero)(SIGSEGV := chain_zero\<lparr>special_handlers := [runtime_handler, slot_zero]\<rparr>)\<rparr>))"
  by (simp add: world_claimed_def AddSpecialSignalHandlerFn_def AddSpecialHandler_def SIGSEGV_def NSIG_def
        world_zero_def chain_zero_def slot_zero_def nullptr_def Claim_def runtime_handler_def)

lemma world_claimed_facts:
  "is_signal_hook_debuggable world_claimed = False"
  "claimed (chains world_claimed SIGSEGV) = True"
  "action (chains world_claimed SIGSEGV) = sigaction_zero"
  "orig_action (chains world_claimed SIGSEGV) = sigaction_zero"
  "special_handlers (chains world_claimed SIGSEGV) = [runtime_handler, slot_zero]"
  "kernel_supported_flags (chains world_claimed SIGSEGV) = 0xDC000807"
  "thread_sigmask world_claimed = 0"
  "handling_tls world_claimed = (\<lambda>key. 0)"
  "logcat world_claimed = []"
  "mallopt_intercept_mte_sigsegv world_claimed = 0"
  by (simp_all add: world_claimed_eq Register_def linked_sigaction64_def real_sigaction_def
       SIGSEGV_def NSIG_def SIGKILL_def SIGSTOP_def handler_action_def world_zero_def chain_zero_def
       SA_NOCLDSTOP_def SA_NOCLDWAIT_def SA_SIGINFO_def SA_ONSTACK_def SA_RESTART_def
      SA_NODEFER_def SA_RESETHAND_def SA_RESTORER_def SA_EXPOSE_TAGBITS_def SA_UNSUPPORTED_def)

text \<open>
  C2 (amended). While \<^verbatim>\<open>is_signal_hook_debuggable\<close> is false, a call
  \<^verbatim>\<open>sigaction(s, new, old)\<close> for a claimed signal \<open>s\<close> from 1 to 64 calls no real libc
  function and returns 0; \<^verbatim>\<open>*old\<close>, when \<^verbatim>\<open>old\<close> is not null, receives the action the chain
  record held before the call; \<^verbatim>\<open>*new\<close>, when \<^verbatim>\<open>new\<close> is not null, is stored in the chain
  record with its flags masked by \<^verbatim>\<open>kernel_supported_flags_\<close>; the kernel's dispositions stay
  as they are; and a following \<^verbatim>\<open>sigaction(s, null, &q)\<close> reads the flags
  \<^verbatim>\<open>new.flags & kernel_supported_flags\<close> into \<open>q\<close>.
\<close>
theorem sigaction_claimed_signal:
  assumes "\<not> is_signal_hook_debuggable w" "0 < s" "s < NSIG" "IsClaimed (chains w s)"
  shows "case sigaction s new old w of (evs, rc, old', w') \<Rightarrow>
     evs = [] \<and> rc = 0 \<and>
     old' = (case old of None \<Rightarrow> None | Some v \<Rightarrow> Some (action (chains w s))) \<and>
     action (chains w' s) =
       (case new of None \<Rightarrow> action (chains w s)
        | Some n \<Rightarrow> n\<lparr>sa_flags := sa_flags n AND kernel_supported_flags (chains w s)\<rparr>) \<and>
     kernel_actions w' = kernel_actions w \<and>
     (case sigaction s None (Some q) w' of (evs2, rc2, q', w'') \<Rightarrow>
        evs2 = [] \<and> rc2 = 0 \<and>
        (case new of None \<Rightarrow> q' = Some (action (chains w s))
         | Some n \<Rightarrow> map_option sa_flags q' = Some (sa_flags n AND kernel_supported_flags (chains w s))))"
proof -
  define w' where "w' = (case new of None \<Rightarrow> w
       | Some n \<Rightarrow> update_chain s (SetAction n) (sigaction_sigsegv_dfl s new w))"
  have d: "\<not> is_signal_hook_debuggable w'" and c: "IsClaimed (chains w' s)"
    and k: "kernel_actions w' = kernel_actions w"
    and a: "action (chains w' s) = (case new of None \<Rightarrow> action (chains w s)
        | Some n \<Rightarrow> n\<lparr>sa_flags := sa_flags n AND kernel_supported_flags (chains w s)\<rparr>)"
    using assms(1,4) by (simp_all add: w'_def update_chain_def IsClaimed_def SetAction_eq split: option.splits)
  have first: "sigaction s new old w = ([], 0, (case old of None \<Rightarrow> None | Some v \<Rightarrow> Some (action (chains w s))), w')"
    unfolding w'_def by (rule sigaction_claimed_eq [OF assms])
  have second: "sigaction s None (Some q) w' = ([], 0, Some (action (chains w' s)), w')"
    using sigaction_claimed_eq [OF d assms(2,3) c, of None "Some q"] by simp
  show ?thesis
    unfolding first by (simp add: second k a split: option.splits)
qed

theorem sigaction_claimed_signal_witness:
  "\<not> is_signal_hook_debuggable world_claimed \<and> 0 < SIGSEGV \<and> SIGSEGV < NSIG \<and>
   IsClaimed (chains world_claimed SIGSEGV) \<and>
   (case sigaction SIGSEGV (Some user_action) (Some user_action) world_claimed of (evs, rc, old', w') \<Rightarrow>
     evs = [] \<and> rc = 0 \<and> old' = Some sigaction_zero \<and>
     action (chains w' SIGSEGV) = user_action\<lparr>sa_flags := SA_SIGINFO OR SA_RESTART\<rparr> \<and>
     kernel_actions w' = kernel_actions world_claimed \<and>
     (case sigaction SIGSEGV None (Some user_action) w' of (evs2, rc2, q', w'') \<Rightarrow>
        evs2 = [] \<and> rc2 = 0 \<and> map_option sa_flags q' = Some (SA_SIGINFO OR SA_RESTART)))"
proof -
  have hyps: "\<not> is_signal_hook_debuggable world_claimed" "0 < SIGSEGV" "SIGSEGV < NSIG"
    "IsClaimed (chains world_claimed SIGSEGV)"
    by (simp_all add: world_claimed_facts IsClaimed_def SIGSEGV_valid)
  have masked: "sa_flags user_action AND kernel_supported_flags (chains world_claimed SIGSEGV) =
      SA_SIGINFO OR SA_RESTART"
    by (simp add: world_claimed_facts user_action_def SA_SIGINFO_def SA_RESTART_def SA_UNSUPPORTED_def)
  show ?thesis
    using sigaction_claimed_signal [OF hyps, of "Some user_action" "Some user_action" user_action] hyps
    by (simp add: masked world_claimed_facts(3) split: prod.splits)
qed

text \<open>
  The claim as written fails after \<^verbatim>\<open>SkipAddSignalHandler(true)\<close>: the call returns 0 at
  line 569, \<^verbatim>\<open>*old\<close> keeps what it held and the chain record keeps its action.
\<close>
theorem sigaction_claimed_signal_counterexample:
  "IsClaimed (chains (SkipAddSignalHandler True world_claimed) SIGSEGV) \<and>
   sigaction SIGSEGV (Some user_action) (Some user_action) (SkipAddSignalHandler True world_claimed) =
     ([], 0, Some user_action, SkipAddSignalHandler True world_claimed) \<and>
   sa_handler (action (chains (SkipAddSignalHandler True world_claimed) SIGSEGV)) = SIG_DFL \<and>
   sa_handler user_action = 0xB000"
  by (simp add: sigaction_def sigaction_impl_def SkipAddSignalHandler_def world_claimed_facts IsClaimed_def
       sigaction_zero_def user_action_def)

subsection \<open>signal and sigaction\<close>
lemma diag_logcat: "(sigaction_sigsegv_dfl signo new w)\<lparr>logcat := l\<rparr> = w\<lparr>logcat := l\<rparr>"
  by (simp add: sigaction_sigsegv_dfl_def LogStack_def LogError_def split: option.splits)

lemma update_chain_logcat:
  "(update_chain s f w)\<lparr>logcat := l\<rparr> = update_chain s f (w\<lparr>logcat := l\<rparr>)"
  by (simp add: update_chain_def)

lemma real_sigaction_diag:
  "real_sigaction signo new (sigaction_sigsegv_dfl signo' new' w) =
    (case real_sigaction signo new w of (rc, written, w') \<Rightarrow> (rc, written, sigaction_sigsegv_dfl signo' new' w'))"
  by (simp add: real_sigaction_def sigaction_sigsegv_dfl_def LogStack_def LogError_def split: option.splits)

lemma real_sigaction_logcat: "logcat (snd (snd (real_sigaction signo new w))) = logcat w"
  by (simp add: real_sigaction_def split: option.splits)

text \<open>
  What \<^verbatim>\<open>signal\<close> has in common with \<^verbatim>\<open>sigaction\<close>. While \<^verbatim>\<open>is_signal_hook_debuggable\<close> is
  false, \<^verbatim>\<open>signal(signo, h)\<close> makes the same calls of the real libc and leaves the same
  state as the interposed \<^verbatim>\<open>sigaction(signo, &sa, &sa)\<close> with \<open>sa\<close> the action of handler
  \<open>h\<close>, flags \<^verbatim>\<open>SA_RESTART | SA_ONSTACK\<close> and the empty mask, but for the diagnostic that
  only \<^verbatim>\<open>sigaction\<close> writes when it sets \<^verbatim>\<open>SIGSEGV\<close> to \<^verbatim>\<open>SIG_DFL\<close>; it returns \<^verbatim>\<open>SIG_ERR\<close>
  where \<^verbatim>\<open>sigaction\<close> returns \<open>- 1\<close>, and otherwise the handler of the previous action.
\<close>
lemma signal_like_sigaction:
  assumes "\<not> is_signal_hook_debuggable w"
  shows "signal signo h w =
     (case sigaction signo (Some (signal_action h)) (Some (signal_action h)) w of
        (evs, rc, old', w') \<Rightarrow>
          (evs,
           (if rc = - 1 then SIG_ERR else case old' of None \<Rightarrow> SIG_ERR | Some a \<Rightarrow> sa_handler a),
           w'\<lparr>logcat := logcat w\<rparr>))"
proof (cases "signo \<le> 0 \<or> NSIG \<le> signo")
  case True
  then show ?thesis using assms
    by (simp add: signal_def sigaction_def sigaction_impl_def)
next
  case valid: False
  show ?thesis
  proof (cases "IsClaimed (chains w signo)")
    case True
    then show ?thesis using assms valid
      by (simp add: signal_def sigaction_def sigaction_impl_def Let_def GetAction_eq store_old_def
           signal_action_def [symmetric] update_chain_logcat diag_logcat)
  next
    case False
    obtain rc written w1 where r: "real_sigaction signo (Some (signal_action h)) w = (rc, written, w1)"
      by (cases "real_sigaction signo (Some (signal_action h)) w") auto
    have l: "logcat w1 = logcat w" using real_sigaction_logcat [of signo "Some (signal_action h)" w] r by simp
    have rcw: "rc \<noteq> - 1 \<Longrightarrow> written \<noteq> None" using r by (auto simp: real_sigaction_def split: if_splits)
    show ?thesis using assms valid False l rcw
      by (cases written)
         (simp_all add: signal_def sigaction_def sigaction_impl_def Let_def store_old_def
           signal_action_def [symmetric] linked_sigaction_def real_sigaction_diag r diag_logcat)
  qed
qed

text \<open>
  C9. \<^verbatim>\<open>signal\<close> is not the interposed \<^verbatim>\<open>sigaction\<close> with that action: its body repeats
  lines 587 to 600 of \<^verbatim>\<open>__sigaction\<close> without the two tests before them. After
  \<^verbatim>\<open>SkipAddSignalHandler(true)\<close>, \<^verbatim>\<open>signal(SIGSEGV, 0xB000)\<close> on the claimed \<^verbatim>\<open>SIGSEGV\<close> stores
  the handler in the chain record and returns the previous handler, where \<^verbatim>\<open>sigaction\<close>
  returns 0 at line 569 and leaves the record (handler \<^verbatim>\<open>SIG_DFL\<close>) as it is. And with the
  bypass off, \<^verbatim>\<open>signal(SIGSEGV, SIG_DFL)\<close> writes nothing to the log, where \<^verbatim>\<open>sigaction\<close>
  writes the diagnostic of lines 582 to 585.
\<close>
theorem signal_departs_from_sigaction:
  "is_signal_hook_debuggable (SkipAddSignalHandler True world_claimed) \<and>
   IsClaimed (chains (SkipAddSignalHandler True world_claimed) SIGSEGV) \<and>
   signal SIGSEGV 0xB000 (SkipAddSignalHandler True world_claimed) =
     ([], SIG_DFL,
      update_chain SIGSEGV (SetAction (signal_action 0xB000)) (SkipAddSignalHandler True world_claimed)) \<and>
   sa_handler (action (chains (snd (snd (signal SIGSEGV 0xB000 (SkipAddSignalHandler True world_claimed)))) SIGSEGV)) = 0xB000 \<and>
   sigaction SIGSEGV (Some (signal_action 0xB000)) (Some (signal_action 0xB000))
       (SkipAddSignalHandler True world_claimed) =
     ([], 0, Some (signal_action 0xB000), SkipAddSignalHandler True world_claimed) \<and>
   sa_handler (action (chains (SkipAddSignalHandler True world_claimed) SIGSEGV)) = SIG_DFL \<and>
   logcat (snd (snd (signal SIGSEGV SIG_DFL world_claimed))) = [] \<and>
   logcat (snd (snd (snd (sigaction SIGSEGV (Some (signal_action SIG_DFL)) (Some (signal_action SIG_DFL)) world_claimed)))) =
     [''Setting SIGSEGV to SIG_DFL'', ''<callstack>'']"
  by (simp add: signal_def sigaction_def sigaction_impl_def SkipAddSignalHandler_def world_claimed_facts IsClaimed_def
       sigaction_zero_def signal_action_def SetAction_eq GetAction_eq update_chain_def SIGSEGV_valid
       sigaction_sigsegv_dfl_def LogStack_def LogError_def store_old_def Let_def sigemptyset_def)

subsection \<open>The handling bit around a special handler\<close>
lemma bit_or_and_self: "k < 64 \<Longrightarrow> (b OR 2 ^ k) AND 2 ^ k \<noteq> (0::64 word)"
  by (auto simp: bit_eq_iff bit_simps)

lemma bit_and_not_self: "(b AND NOT (2 ^ k)) AND 2 ^ k = (0::64 word)"
  by (auto simp: bit_eq_iff bit_simps)

lemma shift_lt_64: "unat (x mod 64 :: 64 word) < 64"
  by (simp add: unat_mod)



lemma SetHandlingSignal_get: "GetHandlingSignal signo (snd (SetHandlingSignal signo v w)) = v"
  by (simp add: SetHandlingSignal_def GetHandlingSignal_def Let_def pthread_getspecific_def
      pthread_setspecific_def kNumSignalsPerKey_def bit_or_and_self bit_and_not_self not_le
      shift_lt_64)

lemma real_sigprocmask_tls: "handling_tls (snd (snd (real_sigprocmask how new w))) = handling_tls w"
  by (simp add: real_sigprocmask_def split: option.splits)









lemma recovery_phase_events:
  "filter is_special_call (fst (Handler_recovery_phase e signo info uc w)) = []"
  "filter is_user_call (fst (Handler_recovery_phase e signo info uc w)) = []"
  by (simp_all add: Handler_recovery_phase_def split: option.splits prod.splits bool.splits)

lemma forward_events:
  "filter is_special_call (fst (Handler_forward e signo info uc w)) = []"
  "filter is_user_call (fst (Handler_forward e signo info uc w)) =
     user_calls_of signo (fst (Handler_select_action signo info w))"
  by (simp_all add: Handler_forward_def user_calls_of_def Let_def split_beta)

lemma rest_events:
  "filter is_special_call (fst (Handler_rest e signo info uc w)) = []"
  using recovery_phase_events(1) [of e signo info uc w]
  by (auto simp: Handler_rest_def forward_events split_beta split: prod.splits phase.splits)


lemma world_user_facts:
  "is_signal_hook_debuggable world_user = False"
  "claimed (chains world_user SIGSEGV) = True"
  "action (chains world_user SIGSEGV) = user_action\<lparr>sa_flags := SA_SIGINFO OR SA_RESTART\<rparr>"
  "special_handlers (chains world_user SIGSEGV) = [runtime_handler, slot_zero]"
  "thread_sigmask world_user = 0"
  "handling_tls world_user = (\<lambda>key. 0)"
  "mallopt_intercept_mte_sigsegv world_user = 0"
proof -
  have hyps: "\<not> is_signal_hook_debuggable world_claimed" "0 < SIGSEGV" "SIGSEGV < NSIG"
    "IsClaimed (chains world_claimed SIGSEGV)"
    by (simp_all add: world_claimed_facts IsClaimed_def SIGSEGV_valid)
  have masked: "sa_flags user_action AND 0xDC000807 = SA_SIGINFO OR SA_RESTART"
    by (simp add: user_action_def SA_SIGINFO_def SA_RESTART_def SA_UNSUPPORTED_def)
  have eq: "world_user = update_chain SIGSEGV (SetAction user_action) world_claimed"
    by (simp add: world_user_def sigaction_claimed_eq [OF hyps] sigaction_sigsegv_dfl_def user_action_def SIG_DFL_def)
  show  "is_signal_hook_debuggable world_user = False"
  "claimed (chains world_user SIGSEGV) = True"
  "action (chains world_user SIGSEGV) = user_action\<lparr>sa_flags := SA_SIGINFO OR SA_RESTART\<rparr>"
  "special_handlers (chains world_user SIGSEGV) = [runtime_handler, slot_zero]"
  "thread_sigmask world_user = 0"
  "handling_tls world_user = (\<lambda>key. 0)"
  "mallopt_intercept_mte_sigsegv world_user = 0"
    by (simp_all add: eq SetAction_eq world_claimed_facts masked)
qed











lemma handling_bit_tls: "handling_tls w' = handling_tls w \<Longrightarrow> handling_bit s w' = handling_bit s w"
  by (simp add: handling_bit_def)

lemma handling_bit_sigprocmask:
  "handling_bit s (snd (snd (real_sigprocmask how new w))) = handling_bit s w"
  by (rule handling_bit_tls) (rule real_sigprocmask_tls)



















subsection \<open>Re-entering the dispatcher\<close>

text \<open>
  C4. When the calling thread's handling bit for \<open>signo\<close> is set at entry, the dispatcher
  calls no special handler: it does what lines 476 to 561 do (\<^verbatim>\<open>android_handle_signal\<close>,
  then the user's action), from the entry state with at most the diagnostic of the
  \<^verbatim>\<open>__aarch64__\<close> branch added.
\<close>
theorem reentry_skips_special_handlers:
  assumes "GetHandlingSignal signo w"
  shows "Handler e signo info uc w = Handler_rest e signo info uc (Handler_already_handling signo w) \<and>
         filter is_special_call (fst (Handler e signo info uc w)) = []"
  using assms rest_events [of e signo info uc "Handler_already_handling signo w"]
  by (simp add: Handler_def Handler_special_phase_def split_beta)

theorem reentry_skips_special_handlers_witness:
  "GetHandlingSignal SIGSEGV world_handling \<and>
   Handler env_pass SIGSEGV siginfo_zero ucontext_zero world_handling =
     Handler_rest env_pass SIGSEGV siginfo_zero ucontext_zero
       (Handler_already_handling SIGSEGV world_handling) \<and>
   filter is_special_call (fst (Handler env_pass SIGSEGV siginfo_zero ucontext_zero world_handling)) = []"
proof -
  have h: "GetHandlingSignal SIGSEGV world_handling"
    by (simp add: world_handling_def SetHandlingSignal_get)
  show ?thesis
    using h reentry_skips_special_handlers [OF h, of env_pass siginfo_zero ucontext_zero] by blast
qed

subsection \<open>Falling through to the user's action\<close>
lemma env_pass_simps [simp]:
  "special_fn env_pass h s i u v = Some (False, i, u, v)"
  "android_handle_signal env_pass = None"
  "sigaction_fn env_pass h s i u v = Some (i, u, v)"
  "handler_fn env_pass h s v = Some v"
  by (simp_all add: env_pass_def)

lemma special_phase_pass:
  assumes "\<forall>h s i u v. \<exists>i' u' v'. special_fn e h s i u v = Some (False, i', u', v')"
  shows "\<exists>evs info' uc' w'. Handler_special_handlers e signo slots info uc w = (evs, Next info' uc' w')"
proof (induction slots arbitrary: info uc w)
  case Nil
  then show ?case by simp
next
  case (Cons i slots)
  let ?h = "special_handlers (chains w signo) ! i"
  show ?case
  proof (cases "sc_sigaction ?h = nullptr")
    case True
    then show ?thesis by simp
  next
    case False
    have "\<exists>evs info' uc' w'. Handler_call_special e signo ?h info uc w = (evs, Next info' uc' w')"
    proof -
      obtain rc old w1 where m: "linked_sigprocmask SIG_SETMASK (Some (sc_mask ?h)) w = (rc, old, w1)"
        by (cases "linked_sigprocmask SIG_SETMASK (Some (sc_mask ?h)) w") auto
      obtain r w2 where c: "ScopedHandlingSignal_ctor signo (sc_flags ?h AND SIGCHAIN_ALLOW_NORETURN = 0) w1 = (r, w2)"
        by (cases "ScopedHandlingSignal_ctor signo (sc_flags ?h AND SIGCHAIN_ALLOW_NORETURN = 0) w1") auto
      from assms obtain i' u' v' where "special_fn e (sc_sigaction ?h) signo info uc w2 = Some (False, i', u', v')"
        by blast
      then show ?thesis by (simp add: Handler_call_special_def m c split_beta Let_def)
    qed
    then obtain evs info' uc' w' where c: "Handler_call_special e signo ?h info uc w = (evs, Next info' uc' w')"
      by blast
    from Cons.IH [of info' uc' w'] show ?thesis using False c by (auto simp: split_beta)
  qed
qed

text \<open>
  When the special handlers return false whatever they are given, and
  \<^verbatim>\<open>android_handle_signal\<close> is absent or does so too, the first two phases pass the signal on.
\<close>
lemma phases_fall_through:
  assumes "\<forall>h s i u v. \<exists>i' u' v'. special_fn e h s i u v = Some (False, i', u', v')"
    and "android_handle_signal e = None \<or>
         (\<exists>f. android_handle_signal e = Some f \<and>
              (\<forall>s i u v. \<exists>i' u' v'. f s i u v = Some (False, i', u', v')))"
  shows "\<exists>evs1 info1 uc1 w1 evs2 info2 uc2 w2.
           Handler_special_phase e signo info uc w = (evs1, Next info1 uc1 w1) \<and>
           Handler_recovery_phase e signo info1 uc1 w1 = (evs2, Next info2 uc2 w2)"
proof -
  obtain evs1 info1 uc1 w1 where sp: "Handler_special_phase e signo info uc w = (evs1, Next info1 uc1 w1)"
    using special_phase_pass [OF assms(1), of signo "[0, 1]" info uc w]
    by (cases "GetHandlingSignal signo w") (auto simp: Handler_special_phase_def)
  obtain evs2 info2 uc2 w2 where rp: "Handler_recovery_phase e signo info1 uc1 w1 = (evs2, Next info2 uc2 w2)"
  proof -
    from assms(2) show ?thesis
    proof
      assume "android_handle_signal e = None"
      then show ?thesis using that by (simp add: Handler_recovery_phase_def)
    next
      assume "\<exists>f. android_handle_signal e = Some f \<and>
              (\<forall>s i u v. \<exists>i' u' v'. f s i u v = Some (False, i', u', v'))"
      then obtain f i' u' v' where "android_handle_signal e = Some f" "f signo info1 uc1 w1 = Some (False, i', u', v')"
        by blast
      then show ?thesis using that by (simp add: Handler_recovery_phase_def)
    qed
  qed
  from sp rp show ?thesis by blast
qed

lemma GetHandlingSignal_clear: "handling_tls w = (\<lambda>key. 0) \<Longrightarrow> \<not> GetHandlingSignal signo w"
  by (simp add: GetHandlingSignal_def pthread_getspecific_def)

lemma same_process_refl [simp]: "same_process w w"
  by (simp add: same_process_def)










lemma call_special_Next:
  "(\<exists>evs info' uc' w'. Handler_call_special e signo handler info uc w = (evs, Next info' uc' w')) =
   (\<exists>info' uc' w3.
      special_fn e (sc_sigaction handler) signo info uc
        (snd (ScopedHandlingSignal_ctor signo (sc_flags handler AND SIGCHAIN_ALLOW_NORETURN = 0)
           (snd (snd (linked_sigprocmask SIG_SETMASK (Some (sc_mask handler)) w))))) =
      Some (False, info', uc', w3))"
  by (auto simp: Handler_call_special_def split_beta Let_def split: option.splits bool.splits)

lemma recovery_phase_Next:
  "(\<exists>evs info' uc' w'. Handler_recovery_phase e signo info uc w = (evs, Next info' uc' w')) =
   (android_handle_signal e = None \<or>
    (\<exists>f info' uc' w'. android_handle_signal e = Some f \<and> f signo info uc w = Some (False, info', uc', w')))"
  by (auto simp: Handler_recovery_phase_def split: option.splits bool.splits)










subsection \<open>The mask for the user's handler\<close>
text \<open>
  The last phase installs \<open>Handler_mask\<close> first. For the signals 1 to 63 that mask is the
  union of the context's mask and the action's mask, with \<open>signo\<close> added unless
  \<^verbatim>\<open>SA_NODEFER\<close> is set; signal 64 is in it only as \<open>signo\<close>.
\<close>
lemma Handler_forward_installs_mask:
  "\<exists>evs. fst (Handler_forward e signo info uc w) =
     LinkedSigprocmask SIG_SETMASK
       (Some (Handler_mask signo uc (fst (Handler_select_action signo info w)))) # evs"
  by (simp add: Handler_forward_def split_beta Let_def)

lemma Handler_mask_member:
  assumes "0 < i" and "i \<le> 64"
  shows "sigismember (Handler_mask signo uc act) i =
     (if (i < 64 \<and> (sigismember (uc_sigmask64 uc) i = 1 \<or> sigismember (sa_mask act) i = 1)) \<or>
         (i = signo \<and> sa_flags act AND SA_NODEFER = 0)
      then 1 else 0)"
proof -
  have n: "nat (i - 1) < 63 \<longleftrightarrow> i < 64" using assms by auto
  have inj: "\<And>j. 0 < j \<Longrightarrow> nat (i - 1) = nat (j - 1) \<Longrightarrow> j = i" using assms by auto
  show ?thesis
    using assms n
    by (auto simp: Handler_mask_eq sigismember_bit bit_sigaddset bit_simps dest: inj)
qed

text \<open>
  C5 (the code departs from the claim). The claim: the mask installed before the user's
  action is the union of \<^verbatim>\<open>uc_sigmask64\<close> and the action's \<^verbatim>\<open>sa_mask\<close>, with \<open>signo\<close>
  added unless \<^verbatim>\<open>SA_NODEFER\<close> is set. The run below: \<^verbatim>\<open>SIGSEGV\<close> arrives on a thread that had
  signal 64 blocked; the special handler returns false; the mask the dispatcher installs
  with \<^verbatim>\<open>SIG_SETMASK\<close> before it calls the user's handler holds \<^verbatim>\<open>SIGSEGV\<close> only, and signal
  64 is no longer blocked.
\<close>
theorem Handler_mask_loses_signal_64:
  "sigismember (uc_sigmask64 ucontext_rtmax) SIGRTMAX = 1 \<and>
   fst (Handler env_pass SIGSEGV siginfo_zero ucontext_rtmax world_user) =
     [LinkedSigprocmask SIG_SETMASK (Some 0),
      CallSpecial runtime_handler SIGSEGV True 0,
      LinkedSigprocmask SIG_SETMASK (Some 0),
      LinkedSigprocmask SIG_SETMASK (Some (sigaddset sigemptyset SIGSEGV)),
      CallSigaction 0xB000 SIGSEGV] \<and>
   sigismember (sigaddset sigemptyset SIGSEGV) SIGRTMAX = 0"
proof -
  have m: "Handler_mask SIGSEGV ucontext_rtmax (user_action\<lparr>sa_flags := SA_SIGINFO OR SA_RESTART\<rparr>) =
      sigaddset sigemptyset SIGSEGV"
    by (simp add: Handler_mask_eq ucontext_rtmax_def user_action_def SA_SIGINFO_def SA_RESTART_def
        SA_NODEFER_def sigaddset_def sigemptyset_def SIGRTMAX_def SIGSEGV_def sigset_bits_def
        mask_eq_exp_minus_1)
  have nb: "\<not> GetHandlingSignal SIGSEGV world_user"
    by (rule GetHandlingSignal_clear) (simp add: world_user_facts)
  have fl: "SA_SIGINFO \<noteq> 0" "sa_handler user_action = 0xB000"
    by (simp_all add: SA_SIGINFO_def SA_RESTART_def user_action_def)
  have tr: "fst (Handler env_pass SIGSEGV siginfo_zero ucontext_rtmax world_user) =
     [LinkedSigprocmask SIG_SETMASK (Some 0),
      CallSpecial runtime_handler SIGSEGV True 0,
      LinkedSigprocmask SIG_SETMASK (Some 0),
      LinkedSigprocmask SIG_SETMASK (Some (sigaddset sigemptyset SIGSEGV)),
      CallSigaction 0xB000 SIGSEGV]"
    using nb
    by (simp add: Handler_def Handler_special_phase_def Handler_call_special_def Handler_rest_def
        Handler_recovery_phase_def Handler_forward_def Handler_select_action_def
        world_user_facts linked_sigprocmask_def linked_sigprocmask64_def real_sigprocmask_def
        ScopedHandlingSignal_ctor_def ScopedHandlingSignal_dtor_def SetHandlingSignal_def
        GetHandlingSignal_def pthread_getspecific_def pthread_setspecific_def GetHandlingSignalKey_def
        kNumSignalsPerKey_def split_beta Let_def m runtime_handler_def slot_zero_def nullptr_def
        SIGCHAIN_ALLOW_NORETURN_def SIG_SETMASK_def SIG_BLOCK_def SIG_UNBLOCK_def
        siginfo_zero_def SEGV_MTEAERR_def SEGV_MTESERR_def SI_USER_def fl not_le shift_lt_64)
  have a: "sigismember (uc_sigmask64 ucontext_rtmax) SIGRTMAX = 1"
    and c: "sigismember (sigaddset sigemptyset SIGSEGV) SIGRTMAX = 0"
    by (simp_all add: ucontext_rtmax_def sigismember_def sigaddset_def sigemptyset_def SIGRTMAX_def
        SIGSEGV_def sigset_bits_def)
  show ?thesis
    using a tr c by (intro conjI)
qed

subsection \<open>The interposed sigprocmask\<close>
lemma filter_fold:
  "bit (fold (\<lambda>i tmpset. if IsClaimed (chains w i) \<and> sigismember tmpset i \<noteq> 0
                       then sigdelset tmpset i else tmpset) xs s) k =
   (bit s k \<and> \<not> (\<exists>i \<in> set xs. IsClaimed (chains w i) \<and> 0 < i \<and> i \<le> 64 \<and> k = nat (i - 1)))"
proof (induction xs arbitrary: s)
  case Nil
  then show ?case by simp
next
  case (Cons x xs)
  show ?case
  proof (cases "0 < x \<and> x \<le> 64")
    case True
    then show ?thesis
      by (auto simp: Cons sigismember_bit bit_sigdelset)
  next
    case False
    then have "sigdelset s x = s" by (auto simp: sigdelset_def sigset_bits_def)
    then show ?thesis using False by (auto simp: Cons)
  qed
qed

lemma sigprocmask_filter_member:
  assumes "0 < i" "i < NSIG"
  shows "sigismember (sigprocmask_filter w s) i = (if IsClaimed (chains w i) then 0 else sigismember s i)"
proof -
  have v: "0 < i" "i \<le> 64" using assms by (simp_all add: NSIG_def)
  have inj: "\<And>j. 1 \<le> j \<Longrightarrow> nat (i - 1) = nat (j - 1) \<Longrightarrow> j = i" using v by auto
  show ?thesis
    unfolding sigismember_bit [OF v] sigprocmask_filter_def filter_fold
    using v by (auto simp: NSIG_def dest: inj)
qed

lemma sigprocmask_handling:
  "GetHandlingSignal_any w \<Longrightarrow>
   sigprocmask how new old w =
     (case real_sigprocmask how new w of
        (rc, written, w1) \<Rightarrow> ([LinkedSigprocmask how new], rc, store_old old written, w1))"
  by (simp add: sigprocmask_def sigprocmask_impl_def linked_sigprocmask_def)

lemma sigprocmask_filtered:
  "\<not> GetHandlingSignal_any w \<Longrightarrow> how = SIG_BLOCK \<or> how = SIG_SETMASK \<Longrightarrow>
   sigprocmask how (Some s) old w =
     (case real_sigprocmask how (Some (sigprocmask_filter w s)) w of
        (rc, written, w1) \<Rightarrow>
          ([LinkedSigprocmask how (Some (sigprocmask_filter w s))], rc, store_old old written, w1))"
  by (auto simp: sigprocmask_def sigprocmask_impl_def linked_sigprocmask_def Let_def)

lemma sigprocmask_result_mask:
  assumes "\<not> GetHandlingSignal_any w" and "how = SIG_BLOCK \<or> how = SIG_SETMASK"
  shows "thread_sigmask (snd (snd (snd (sigprocmask how (Some s) old w)))) =
     (if how = SIG_BLOCK then (thread_sigmask w OR sigprocmask_filter w s) AND NOT unblockable
      else sigprocmask_filter w s AND NOT unblockable)"
  using assms(2)
  by (auto simp: sigprocmask_filtered [OF assms] real_sigprocmask_def SIG_BLOCK_def SIG_SETMASK_def SIG_UNBLOCK_def)

text \<open>
  C3 (amended). If any handling bit of the calling thread is set, \<^verbatim>\<open>sigprocmask\<close> forwards
  its arguments unchanged to the real \<^verbatim>\<open>sigprocmask\<close>. Otherwise, when \<^verbatim>\<open>how\<close> is
  \<^verbatim>\<open>SIG_BLOCK\<close> or \<^verbatim>\<open>SIG_SETMASK\<close> and \<^verbatim>\<open>new\<close> is not null, the set it forwards is
  \<^verbatim>\<open>*new\<close> without the signals whose chain is claimed (every other signal from 1 to 64 is
  in it exactly if it is in \<^verbatim>\<open>*new\<close>); so a claimed signal is unblocked in the resulting
  mask after \<^verbatim>\<open>SIG_SETMASK\<close>, and after \<^verbatim>\<open>SIG_BLOCK\<close> when it was unblocked before the call.
\<close>
theorem sigprocmask_claimed_signals:
  "(GetHandlingSignal_any w \<longrightarrow>
      sigprocmask how new old w =
        (case real_sigprocmask how new w of
           (rc, written, w1) \<Rightarrow> ([LinkedSigprocmask how new], rc, store_old old written, w1))) \<and>
   (\<not> GetHandlingSignal_any w \<and> (how = SIG_BLOCK \<or> how = SIG_SETMASK) \<longrightarrow>
      sigprocmask how (Some s) old w =
        (case real_sigprocmask how (Some (sigprocmask_filter w s)) w of
           (rc, written, w1) \<Rightarrow>
             ([LinkedSigprocmask how (Some (sigprocmask_filter w s))], rc,
              store_old old written, w1)) \<and>
      (\<forall>i. 0 < i \<and> i < NSIG \<longrightarrow>
         sigismember (sigprocmask_filter w s) i =
           (if IsClaimed (chains w i) then 0 else sigismember s i)) \<and>
      (\<forall>i. 0 < i \<and> i < NSIG \<and> IsClaimed (chains w i) \<and>
           (how = SIG_SETMASK \<or> sigismember (thread_sigmask w) i = 0) \<longrightarrow>
         sigismember (thread_sigmask (snd (snd (snd (sigprocmask how (Some s) old w))))) i = 0))"
proof (intro conjI impI allI)
  assume "GetHandlingSignal_any w"
  then show "sigprocmask how new old w =
        (case real_sigprocmask how new w of
           (rc, written, w1) \<Rightarrow> ([LinkedSigprocmask how new], rc, store_old old written, w1))"
    by (rule sigprocmask_handling)
next
  assume a: "\<not> GetHandlingSignal_any w \<and> (how = SIG_BLOCK \<or> how = SIG_SETMASK)"
  then show "sigprocmask how (Some s) old w =
        (case real_sigprocmask how (Some (sigprocmask_filter w s)) w of
           (rc, written, w1) \<Rightarrow>
             ([LinkedSigprocmask how (Some (sigprocmask_filter w s))], rc,
              store_old old written, w1))"
    by (simp add: sigprocmask_filtered)
next
  fix i
  assume "0 < i \<and> i < NSIG"
  then show "sigismember (sigprocmask_filter w s) i =
           (if IsClaimed (chains w i) then 0 else sigismember s i)"
    by (simp add: sigprocmask_filter_member)
next
  fix i
  assume a: "\<not> GetHandlingSignal_any w \<and> (how = SIG_BLOCK \<or> how = SIG_SETMASK)"
    and i: "0 < i \<and> i < NSIG \<and> IsClaimed (chains w i) \<and>
           (how = SIG_SETMASK \<or> sigismember (thread_sigmask w) i = 0)"
  have v: "0 < i" "i \<le> 64" using i by (simp_all add: NSIG_def)
  have f: "\<not> bit (sigprocmask_filter w s) (nat (i - 1))"
    using sigprocmask_filter_member [of i w s] i by (simp add: sigismember_bit [OF v] split: if_splits)
  have m: "thread_sigmask (snd (snd (snd (sigprocmask how (Some s) old w)))) =
     (if how = SIG_BLOCK then (thread_sigmask w OR sigprocmask_filter w s) AND NOT unblockable
      else sigprocmask_filter w s AND NOT unblockable)"
    using a by (intro sigprocmask_result_mask) simp_all
  have "how = SIG_BLOCK \<Longrightarrow> \<not> bit (thread_sigmask w) (nat (i - 1))"
    using i by (auto simp: sigismember_bit [OF v] SIG_BLOCK_def SIG_SETMASK_def split: if_splits)
  then show "sigismember (thread_sigmask (snd (snd (snd (sigprocmask how (Some s) old w))))) i = 0"
    using f by (simp add: m sigismember_bit [OF v] bit_simps)
qed

lemma kHandlingSignalKeyCount_eq: "kHandlingSignalKeyCount = 1"
  by (simp add: kHandlingSignalKeyCount_def RoundUp_def kSignalSetLength_def kNumSignalsPerKey_def NSIG_def)

lemma GetHandlingSignal_any_eq: "GetHandlingSignal_any w = (handling_tls w 0 \<noteq> 0)"
  by (simp add: GetHandlingSignal_any_def kHandlingSignalKeyCount_eq pthread_getspecific_def
      GetHandlingSignalKey_def)

lemma world_handling_any: "GetHandlingSignal_any world_handling"
  by (simp add: GetHandlingSignal_any_eq world_handling_def SetHandlingSignal_def Let_def
      pthread_setspecific_def pthread_getspecific_def GetHandlingSignalKey_def kNumSignalsPerKey_def
      SIGSEGV_def world_user_facts)

lemma world_user_usr1: "\<not> IsClaimed (chains world_user SIGUSR1)"
proof -
  have hyps: "\<not> is_signal_hook_debuggable world_claimed" "0 < SIGSEGV" "SIGSEGV < NSIG"
    "IsClaimed (chains world_claimed SIGSEGV)"
    by (simp_all add: world_claimed_facts IsClaimed_def SIGSEGV_valid)
  have eq: "world_user = update_chain SIGSEGV (SetAction user_action) world_claimed"
    by (simp add: world_user_def sigaction_claimed_eq [OF hyps] sigaction_sigsegv_dfl_def user_action_def SIG_DFL_def)
  show ?thesis
    by (simp add: eq world_claimed_eq IsClaimed_def SIGUSR1_def SIGSEGV_def Register_def
        linked_sigaction64_def real_sigaction_def NSIG_def SIGKILL_def SIGSTOP_def world_zero_def
        chain_zero_def split_beta Let_def)
qed

lemma segv_and_usr1_members:
  "sigismember segv_and_usr1 SIGSEGV = 1" "sigismember segv_and_usr1 SIGUSR1 = 1"
  by (simp_all add: segv_and_usr1_def sigismember_def sigaddset_def sigemptyset_def sigset_bits_def
      SIGSEGV_def SIGUSR1_def)

theorem sigprocmask_claimed_signals_witness:
  "GetHandlingSignal_any world_handling \<and>
   sigprocmask SIG_BLOCK (Some segv_and_usr1) None world_handling =
     (case real_sigprocmask SIG_BLOCK (Some segv_and_usr1) world_handling of
        (rc, written, w1) \<Rightarrow>
          ([LinkedSigprocmask SIG_BLOCK (Some segv_and_usr1)], rc, store_old None written, w1)) \<and>
   \<not> GetHandlingSignal_any world_user \<and> IsClaimed (chains world_user SIGSEGV) \<and>
   sigismember (thread_sigmask world_user) SIGSEGV = 0 \<and>
   sigismember (sigprocmask_filter world_user segv_and_usr1) SIGSEGV = 0 \<and>
   sigismember (sigprocmask_filter world_user segv_and_usr1) SIGUSR1 = 1 \<and>
   sigismember (thread_sigmask (snd (snd (snd
       (sigprocmask SIG_BLOCK (Some segv_and_usr1) None world_user))))) SIGSEGV = 0"
proof -
  have h: "GetHandlingSignal_any world_handling" by (rule world_handling_any)
  have u: "\<not> GetHandlingSignal_any world_user"
    by (simp add: GetHandlingSignal_any_eq world_user_facts)
  have c: "IsClaimed (chains world_user SIGSEGV)" by (simp add: IsClaimed_def world_user_facts)
  have m: "sigismember (thread_sigmask world_user) SIGSEGV = 0"
    by (simp add: world_user_facts sigismember_def sigset_bits_def SIGSEGV_def)
  have v: "0 < SIGSEGV \<and> SIGSEGV < NSIG" "0 < SIGUSR1 \<and> SIGUSR1 < NSIG"
    by (simp_all add: SIGSEGV_def SIGUSR1_def NSIG_def)
  note t1 = sigprocmask_claimed_signals [of world_handling SIG_BLOCK "Some segv_and_usr1" None segv_and_usr1,
      THEN conjunct1, rule_format, OF h]
  note t2 = sigprocmask_claimed_signals [of world_user SIG_BLOCK "Some segv_and_usr1" None segv_and_usr1,
      THEN conjunct2, rule_format, OF conjI [OF u disjI1 [OF refl]]]
  note filtered = t2 [THEN conjunct2, THEN conjunct1, rule_format]
  note result = t2 [THEN conjunct2, THEN conjunct2, rule_format]
  have f1: "sigismember (sigprocmask_filter world_user segv_and_usr1) SIGSEGV = 0"
    using filtered [OF v(1)] c by simp
  have f2: "sigismember (sigprocmask_filter world_user segv_and_usr1) SIGUSR1 = 1"
    using filtered [OF v(2)] world_user_usr1 segv_and_usr1_members by simp
  have r: "sigismember (thread_sigmask (snd (snd (snd
       (sigprocmask SIG_BLOCK (Some segv_and_usr1) None world_user))))) SIGSEGV = 0"
    using v(1) c m by (intro result) simp
  show ?thesis
    using h t1 u c m f1 f2 r by (intro conjI)
qed

lemma sigprocmask_filter_unclaimed:
  assumes "\<And>i. \<not> IsClaimed (chains w i)"
  shows "sigprocmask_filter w s = s"
proof (rule bit_eqI)
  fix n
  have "bit (sigprocmask_filter w s) n =
    (bit s n \<and> \<not> (\<exists>i \<in> set [1..NSIG - 1]. IsClaimed (chains w i) \<and> 0 < i \<and> i \<le> 64 \<and> n = nat (i - 1)))"
    unfolding sigprocmask_filter_def by (rule filter_fold)
  then show "bit (sigprocmask_filter w s) n = bit s n" using assms by simp
qed

lemma world_preblocked_facts:
  "claimed (chains world_preblocked SIGSEGV) = True"
  "handling_tls world_preblocked = (\<lambda>key. 0)"
  "thread_sigmask world_preblocked = sigaddset sigemptyset SIGSEGV"
proof -
  define w1 where "w1 = snd (snd (snd (sigprocmask SIG_BLOCK (Some (sigaddset sigemptyset SIGSEGV)) None
                                world_zero)))"
  define w2 where "w2 = Claim SIGSEGV (w1\<lparr>chains := (chains w1)(SIGSEGV := chain_zero\<lparr>special_handlers := [runtime_handler, slot_zero]\<rparr>)\<rparr>)"
  have n: "\<not> GetHandlingSignal_any world_zero"
    by (simp add: GetHandlingSignal_any_eq world_zero_def)
  have f: "sigprocmask_filter world_zero (sigaddset sigemptyset SIGSEGV) = sigaddset sigemptyset SIGSEGV"
    by (rule sigprocmask_filter_unclaimed) (simp add: world_zero_def chain_zero_def IsClaimed_def)
  have w1: "w1 = world_zero\<lparr>thread_sigmask := sigaddset sigemptyset SIGSEGV\<rparr>"
    unfolding w1_def sigprocmask_filtered [OF n disjI1 [OF refl]] f
    by (simp add: real_sigprocmask_def SIG_BLOCK_def world_zero_def sigaddset_def sigemptyset_def
        sigset_bits_def SIGSEGV_def unblockable_def SIGKILL_def SIGSTOP_def)
  have add: "AddSpecialSignalHandlerFn SIGSEGV runtime_handler w1 = Inr w2"
    by (simp add: w2_def w1 AddSpecialSignalHandlerFn_def AddSpecialHandler_def SIGSEGV_valid
        world_zero_def chain_zero_def slot_zero_def nullptr_def)
  have eq: "world_preblocked = w2"
    by (simp add: world_preblocked_def w1_def [symmetric] add)
  show "claimed (chains world_preblocked SIGSEGV) = True"
    "handling_tls world_preblocked = (\<lambda>key. 0)"
    "thread_sigmask world_preblocked = sigaddset sigemptyset SIGSEGV"
    by (simp_all add: eq w2_def w1 Claim_def Register_def linked_sigaction64_def real_sigaction_def
        world_zero_def chain_zero_def SIGSEGV_def NSIG_def SIGKILL_def SIGSTOP_def split_beta Let_def)
qed

text \<open>
  The claim as written fails for \<^verbatim>\<open>SIG_BLOCK\<close> when the claimed signal is already blocked:
  the call removes it from the set it forwards, and does not unblock it.
\<close>
theorem sigprocmask_claimed_signals_counterexample:
  "IsClaimed (chains world_preblocked SIGSEGV) \<and> \<not> GetHandlingSignal_any world_preblocked \<and>
   sigismember (thread_sigmask (snd (snd (snd
     (sigprocmask SIG_BLOCK (Some (sigaddset sigemptyset SIGSEGV)) None world_preblocked))))) SIGSEGV = 1"
proof -
  have c: "IsClaimed (chains world_preblocked SIGSEGV)"
    by (simp add: IsClaimed_def world_preblocked_facts)
  have n: "\<not> GetHandlingSignal_any world_preblocked"
    by (simp add: GetHandlingSignal_any_eq world_preblocked_facts)
  have v: "0 < SIGSEGV" "SIGSEGV \<le> 64" by (simp_all add: SIGSEGV_def)
  have "sigismember (thread_sigmask (snd (snd (snd
     (sigprocmask SIG_BLOCK (Some (sigaddset sigemptyset SIGSEGV)) None world_preblocked))))) SIGSEGV = 1"
    unfolding sigprocmask_result_mask [OF n disjI1 [OF refl]] sigismember_bit [OF v]
    by (simp add: world_preblocked_facts bit_simps sigaddset_def sigemptyset_def sigset_bits_def
        SIGSEGV_def unblockable_def SIGKILL_def SIGSTOP_def)
  with c n show ?thesis by (intro conjI)
qed

subsection \<open>EnsureFrontOfChain\<close>
lemma Register_effect:
  assumes "0 < s" "s < NSIG" "s \<noteq> SIGKILL" "s \<noteq> SIGSTOP"
  shows "action (chains (Register s w) s) = kernel_actions w s"
    "orig_action (chains (Register s w) s) = kernel_actions w s"
    "kernel_actions (Register s w) s =
       handler_action\<lparr>sa_flags := sa_flags handler_action AND kernel_flag_mask w,
                       sa_mask := sa_mask handler_action AND NOT unblockable\<rparr>"
  using assms
  by (simp_all add: Register_def linked_sigaction64_def real_sigaction_def split_beta Let_def)

text \<open>
  C10 (amended). For every signal from 1 to 64 other than \<^verbatim>\<open>SIGKILL\<close> and \<^verbatim>\<open>SIGSTOP\<close>: when
  \<^verbatim>\<open>EnsureFrontOfChain\<close> finds that the kernel's disposition is not the dispatcher, it
  registers again; afterwards the chain record's \<^verbatim>\<open>action_\<close> and \<^verbatim>\<open>orig_action_\<close> both are
  the disposition the kernel held at that moment, whatever action the record held before,
  the kernel's disposition is the dispatcher, and \<^verbatim>\<open>kernel_supported_flags_\<close> is computed
  anew from the flags read back.
\<close>
theorem EnsureFrontOfChain_overwrites_action:
  assumes "0 < s" and "s < NSIG" and "s \<noteq> SIGKILL" and "s \<noteq> SIGSTOP"
    and "sa_handler (kernel_actions w s) \<noteq> Handler_addr"
  shows "\<exists>w'. EnsureFrontOfChain s w = Inr w' \<and>
     action (chains w' s) = kernel_actions w s \<and>
     orig_action (chains w' s) = kernel_actions w s \<and>
     sa_handler (kernel_actions w' s) = Handler_addr \<and>
     kernel_supported_flags (chains w' s) =
       (SA_NOCLDSTOP OR SA_NOCLDWAIT OR SA_SIGINFO OR SA_ONSTACK OR SA_RESTART OR
        SA_NODEFER OR SA_RESETHAND OR SA_RESTORER) OR
       (if sa_flags (kernel_actions w' s) AND SA_UNSUPPORTED = 0 \<and>
           sa_flags (kernel_actions w' s) AND SA_EXPOSE_TAGBITS \<noteq> 0
        then SA_EXPOSE_TAGBITS else 0)"
proof -
  let ?w' = "Register s (LogError (''Warning: Unexpected sigaction action found %p'' @ [CHR 0x0A]) w)"
  have e: "EnsureFrontOfChain s w = Inr ?w'"
    using assms(1,2,5)
    by (simp add: EnsureFrontOfChain_def linked_sigaction64_def real_sigaction_read)
  have l: "\<And>msg. kernel_actions (LogError msg w) = kernel_actions w"
    by (simp add: LogError_def)
  show ?thesis
    unfolding e
    using Register_effect [OF assms(1-4), of "LogError (''Warning: Unexpected sigaction action found %p'' @ [CHR 0x0A]) w"]
      Register_kernel_supported_flags [OF assms(1,2), of "LogError (''Warning: Unexpected sigaction action found %p'' @ [CHR 0x0A]) w"]
    by (simp add: l handler_action_def)
qed

lemma world_clobbered_facts:
  "sa_handler (kernel_actions world_clobbered SIGSEGV) = 0xC000"
  "sa_handler (action (chains world_clobbered SIGSEGV)) = 0xB000"
  by (simp_all add: world_clobbered_def real_sigaction_def SIGSEGV_valid SIGSEGV_def SIGKILL_def
      SIGSTOP_def NSIG_def first_action_def world_user_facts [unfolded SIGSEGV_def] user_action_def)

theorem EnsureFrontOfChain_overwrites_action_witness:
  "0 < SIGSEGV \<and> SIGSEGV < NSIG \<and> SIGSEGV \<noteq> SIGKILL \<and> SIGSEGV \<noteq> SIGSTOP \<and>
   sa_handler (kernel_actions world_clobbered SIGSEGV) \<noteq> Handler_addr \<and>
   sa_handler (action (chains world_clobbered SIGSEGV)) = 0xB000 \<and>
   sa_handler (kernel_actions world_clobbered SIGSEGV) = 0xC000 \<and>
   (\<exists>w'. EnsureFrontOfChain SIGSEGV world_clobbered = Inr w' \<and>
     action (chains w' SIGSEGV) = kernel_actions world_clobbered SIGSEGV \<and>
     orig_action (chains w' SIGSEGV) = kernel_actions world_clobbered SIGSEGV \<and>
     sa_handler (kernel_actions w' SIGSEGV) = Handler_addr \<and>
     kernel_supported_flags (chains w' SIGSEGV) =
       (SA_NOCLDSTOP OR SA_NOCLDWAIT OR SA_SIGINFO OR SA_ONSTACK OR SA_RESTART OR
        SA_NODEFER OR SA_RESETHAND OR SA_RESTORER) OR
       (if sa_flags (kernel_actions w' SIGSEGV) AND SA_UNSUPPORTED = 0 \<and>
           sa_flags (kernel_actions w' SIGSEGV) AND SA_EXPOSE_TAGBITS \<noteq> 0
        then SA_EXPOSE_TAGBITS else 0))"
proof -
  have v: "0 < SIGSEGV" "SIGSEGV < NSIG" "SIGSEGV \<noteq> SIGKILL" "SIGSEGV \<noteq> SIGSTOP"
    by (simp_all add: SIGSEGV_def NSIG_def SIGKILL_def SIGSTOP_def)
  have h: "sa_handler (kernel_actions world_clobbered SIGSEGV) \<noteq> Handler_addr"
    by (simp add: world_clobbered_facts Handler_addr_def)
  show ?thesis
    using v h world_clobbered_facts EnsureFrontOfChain_overwrites_action [OF v h] by (intro conjI)
qed

lemma world_kill_facts:
  "sa_handler (action (chains world_kill SIGKILL)) = 0xB000"
  "kernel_actions world_kill SIGKILL = sigaction_zero"
proof -
  define w2 where "w2 = Claim SIGKILL (world_zero\<lparr>chains := (chains world_zero)(SIGKILL := chain_zero\<lparr>special_handlers := [runtime_handler, slot_zero]\<rparr>)\<rparr>)"
  have v: "0 < SIGKILL" "SIGKILL < NSIG" "\<not> SIGKILL \<le> 0" "\<not> NSIG \<le> SIGKILL"
    by (simp_all add: SIGKILL_def NSIG_def)
  have add: "AddSpecialSignalHandlerFn SIGKILL runtime_handler world_zero = Inr w2"
    by (simp add: w2_def AddSpecialSignalHandlerFn_def AddSpecialHandler_def v
        world_zero_def chain_zero_def slot_zero_def nullptr_def)
  have w2: "claimed (chains w2 SIGKILL)" "\<not> is_signal_hook_debuggable w2"
    "kernel_actions w2 SIGKILL = sigaction_zero"
    by (simp_all add: w2_def Claim_def Register_def linked_sigaction64_def real_sigaction_def
        world_zero_def chain_zero_def v split_beta Let_def)
  have hyps: "\<not> is_signal_hook_debuggable w2" "0 < SIGKILL" "SIGKILL < NSIG"
    "IsClaimed (chains w2 SIGKILL)"
    using w2 v by (simp_all add: IsClaimed_def)
  have eq: "world_kill = update_chain SIGKILL (SetAction user_action) w2"
    by (simp add: world_kill_def add sigaction_claimed_eq [OF hyps]
         sigaction_sigsegv_dfl_def user_action_def SIG_DFL_def)
  show "sa_handler (action (chains world_kill SIGKILL)) = 0xB000"
    "kernel_actions world_kill SIGKILL = sigaction_zero"
    by (simp_all add: eq SetAction_eq w2 user_action_def)
qed

text \<open>
  The claim as written fails for \<^verbatim>\<open>SIGKILL\<close> (and \<^verbatim>\<open>SIGSTOP\<close>): the kernel's disposition
  is never the dispatcher, the real \<^verbatim>\<open>sigaction\<close> refuses the registration and writes
  nothing to \<^verbatim>\<open>action_\<close>, so the stored user action stays.
\<close>
theorem EnsureFrontOfChain_overwrites_action_counterexample:
  "0 < SIGKILL \<and> SIGKILL < NSIG \<and>
   sa_handler (kernel_actions world_kill SIGKILL) = SIG_DFL \<and> SIG_DFL \<noteq> Handler_addr \<and>
   (case EnsureFrontOfChain SIGKILL world_kill of
      Inr w' \<Rightarrow> sa_handler (action (chains w' SIGKILL))
    | Inl msg \<Rightarrow> SIG_ERR) = 0xB000"
proof -
  have v: "0 < SIGKILL" "SIGKILL < NSIG" by (simp_all add: SIGKILL_def NSIG_def)
  have k: "sa_handler (kernel_actions world_kill SIGKILL) = SIG_DFL" "SIG_DFL \<noteq> Handler_addr"
    by (simp_all add: world_kill_facts sigaction_zero_def SIG_DFL_def Handler_addr_def)
  have e: "EnsureFrontOfChain SIGKILL world_kill =
      Inr (Register SIGKILL (LogError (''Warning: Unexpected sigaction action found %p'' @ [CHR 0x0A]) world_kill))"
    using v k by (simp add: EnsureFrontOfChain_def linked_sigaction64_def real_sigaction_read)
  have "sa_handler (action (chains (Register SIGKILL
      (LogError (''Warning: Unexpected sigaction action found %p'' @ [CHR 0x0A]) world_kill)) SIGKILL)) = 0xB000"
    using v by (simp add: Register_def linked_sigaction64_def real_sigaction_def split_beta Let_def
        LogError_def world_kill_facts)
  then show ?thesis using v k by (simp add: e)
qed

end
